theory Spec2Isabelle
  imports Main "HOL-Library.Word" "HOL-Library.Monad_Syntax"
begin

section \<open>Library functions used by the path builder\<close>

text \<open>
  Go strings are byte sequences, modelled as \<open>string\<close>.
  \<open>strings.Contains(s, substr)\<close> reports whether \<open>substr\<close> occurs in \<open>s\<close>.
\<close>

definition strings_HasPrefix :: "string \<Rightarrow> string \<Rightarrow> bool" where
  "strings_HasPrefix s p = (take (length p) s = p)"

fun strings_Contains :: "string \<Rightarrow> string \<Rightarrow> bool" where
  "strings_Contains [] substr = (substr = [])"
| "strings_Contains (c # cs) substr =
     (strings_HasPrefix (c # cs) substr \<or> strings_Contains cs substr)"

text \<open>
  \<open>fmt.Sprintf(format, a)\<close> with one operand of type string. The model covers the
  directives \<open>%%\<close>, \<open>%s\<close> and \<open>%v\<close> with no flags, width, precision or argument index,
  the marker \<open>%!s(MISSING)\<close> of a directive that finds no operand left, the marker
  \<open>%!(NOVERB)\<close> of a format that ends in \<open>%\<close>, and the marker \<open>%!(EXTRA string=a)\<close>
  appended when no directive has consumed the operand. Any other directive is outside the
  model and gives \<open>None\<close>. The flag \<open>used\<close> says that the operand is consumed.
\<close>

fun doPrintf :: "string \<Rightarrow> string \<Rightarrow> bool \<Rightarrow> string option" where
  "doPrintf [] a used = Some (if used then [] else ''%!(EXTRA string='' @ a @ '')'')"
| "doPrintf (c # cs) a used =
     (if c \<noteq> CHR ''%'' then map_option ((#) c) (doPrintf cs a used)
      else (case cs of
          [] \<Rightarrow> map_option ((@) ''%!(NOVERB)'') (doPrintf [] a used)
        | verb # rest \<Rightarrow>
            if verb = CHR ''%'' then map_option ((#) CHR ''%'') (doPrintf rest a used)
            else if verb = CHR ''s'' \<or> verb = CHR ''v'' then
              (if used then map_option ((@) (''%!'' @ [verb] @ ''(MISSING)'')) (doPrintf rest a used)
               else map_option ((@) a) (doPrintf rest a True))
            else None))"

definition fmt_Sprintf :: "string \<Rightarrow> string \<Rightarrow> string option" where
  "fmt_Sprintf format a = doPrintf format a False"

section \<open>Errors and panics\<close>

text \<open>
  A Go \<open>error\<close> value is \<open>nil\<close> (\<open>None\<close>) or one of: the value of \<open>errors.New(msg)\<close>, a
  syntax error of \<open>encoding/json\<close>, a type error of \<open>encoding/json\<close> (with its description
  of the offending JSON value), or an error of the transport behind the client.
\<close>

datatype error =
    errorString string
  | SyntaxError
  | UnmarshalTypeError string
  | TransportError string

text \<open>A function that can panic at run time either panics or returns.\<close>

datatype runtime_panic = IndexOutOfRange nat nat | ReflectPanic string

datatype 'a outcome = Panics runtime_panic | Returns 'a

section \<open>JSON texts (encoding/json)\<close>

datatype json =
    JNull
  | JBool bool
  | JNumber string
  | JString string
  | JArray "json list"
  | JObject "(string \<times> json) list"

subsection \<open>UTF-8\<close>

definition byte :: "char \<Rightarrow> nat" where
  "byte c = of_char c"

definition in_range :: "nat \<Rightarrow> nat \<Rightarrow> char \<Rightarrow> bool" where
  "in_range lo hi c = (lo \<le> byte c \<and> byte c \<le> hi)"

text \<open>
  The length of the well-formed UTF-8 sequence that starts the bytes (\<open>utf8.DecodeRune\<close>),
  or 0 when the first byte starts none.
\<close>

fun utf8_size :: "string \<Rightarrow> nat" where
  "utf8_size [] = 0"
| "utf8_size (c # cs) =
     (if byte c < 0x80 then 1
      else if in_range 0xC2 0xDF c then
        (case cs of c1 # _ \<Rightarrow> if in_range 0x80 0xBF c1 then 2 else 0 | _ \<Rightarrow> 0)
      else if in_range 0xE0 0xEF c then
        (case cs of c1 # c2 # _ \<Rightarrow>
           if in_range (if byte c = 0xE0 then 0xA0 else 0x80)
                (if byte c = 0xED then 0x9F else 0xBF) c1
              \<and> in_range 0x80 0xBF c2 then 3 else 0
         | _ \<Rightarrow> 0)
      else if in_range 0xF0 0xF4 c then
        (case cs of c1 # c2 # c3 # _ \<Rightarrow>
           if in_range (if byte c = 0xF0 then 0x90 else 0x80)
                (if byte c = 0xF4 then 0x8F else 0xBF) c1
              \<and> in_range 0x80 0xBF c2 \<and> in_range 0x80 0xBF c3 then 4 else 0
         | _ \<Rightarrow> 0)
      else 0)"

text \<open>\<open>utf8.EncodeRune\<close>; a surrogate or a value beyond U+10FFFF is encoded as U+FFFD.\<close>

definition utf8_encode :: "nat \<Rightarrow> string" where
  "utf8_encode r =
     (if r < 0x80 then [char_of r]
      else if r < 0x800 then [char_of (0xC0 + r div 64), char_of (0x80 + r mod 64)]
      else if (0xD800 \<le> r \<and> r < 0xE000) \<or> 0x10FFFF < r then
        [char_of (0xEF::nat), char_of (0xBF::nat), char_of (0xBD::nat)]
      else if r < 0x10000 then
        [char_of (0xE0 + r div 4096), char_of (0x80 + r div 64 mod 64), char_of (0x80 + r mod 64)]
      else
        [char_of (0xF0 + r div 262144), char_of (0x80 + r div 4096 mod 64),
         char_of (0x80 + r div 64 mod 64), char_of (0x80 + r mod 64)])"

subsection \<open>String literals\<close>

definition hex_digit :: "char \<Rightarrow> nat option" where
  "hex_digit c =
     (if in_range 0x30 0x39 c then Some (byte c - 0x30)
      else if in_range 0x61 0x66 c then Some (byte c - 0x61 + 10)
      else if in_range 0x41 0x46 c then Some (byte c - 0x41 + 10)
      else None)"

text \<open>\<open>getu4\<close>: the value of \<open>\<backslash>uXXXX\<close> at the start of the bytes.\<close>

fun getu4 :: "string \<Rightarrow> nat option" where
  "getu4 (b # u # h1 # h2 # h3 # h4 # _) =
     (if b = CHR 0x5C \<and> u = CHR ''u'' then
        (case (hex_digit h1, hex_digit h2, hex_digit h3, hex_digit h4) of
           (Some d1, Some d2, Some d3, Some d4) \<Rightarrow> Some (((d1 * 16 + d2) * 16 + d3) * 16 + d4)
         | _ \<Rightarrow> None)
      else None)"
| "getu4 _ = None"

definition simple_escape :: "char \<Rightarrow> char option" where
  "simple_escape e =
     (if e = CHR 0x22 \<or> e = CHR 0x5C \<or> e = CHR ''/'' then Some e
      else if e = CHR ''b'' then Some (CHR 0x08)
      else if e = CHR ''f'' then Some (CHR 0x0C)
      else if e = CHR ''n'' then Some (CHR 0x0A)
      else if e = CHR ''r'' then Some (CHR 0x0D)
      else if e = CHR ''t'' then Some (CHR 0x09)
      else None)"

text \<open>
  One item of a string literal (\<open>unquote\<close>): a character or an escape, with the bytes it
  stands for and the bytes after it. A control character is not allowed, a pair of
  surrogate escapes is one character, a lone surrogate and an ill-formed byte become U+FFFD.
\<close>

fun string_item :: "string \<Rightarrow> (string \<times> string) option" where
  "string_item [] = None"
| "string_item (c # cs) =
     (if byte c < 0x20 then None
      else if c = CHR 0x5C then
        (case cs of
           [] \<Rightarrow> None
         | e # r \<Rightarrow>
             if e = CHR ''u'' then
               (case getu4 (c # cs) of
                  None \<Rightarrow> None
                | Some rr \<Rightarrow>
                    let r4 = drop 4 r in
                    if 0xD800 \<le> rr \<and> rr < 0xE000 then
                      (case getu4 r4 of
                         Some rr1 \<Rightarrow>
                           if rr < 0xDC00 \<and> 0xDC00 \<le> rr1 \<and> rr1 < 0xE000 then
                             Some (utf8_encode ((rr - 0xD800) * 1024 + (rr1 - 0xDC00) + 0x10000),
                                   drop 6 r4)
                           else Some (utf8_encode 0xFFFD, r4)
                       | None \<Rightarrow> Some (utf8_encode 0xFFFD, r4))
                    else Some (utf8_encode rr, r4))
             else
               (case simple_escape e of
                  None \<Rightarrow> None
                | Some x \<Rightarrow> Some ([x], r)))
      else
        (let n = utf8_size (c # cs) in
         if n = 0 then Some (utf8_encode 0xFFFD, cs)
         else Some (take n (c # cs), drop (n - 1) cs)))"

lemma string_item_shorter: "string_item (c # cs) = Some (b, rest) \<Longrightarrow> length rest \<le> length cs"
  by (auto simp: Let_def simp del: utf8_size.simps getu4.simps
        split: if_splits list.splits option.splits)

declare string_item.simps [simp del] utf8_size.simps [simp del] getu4.simps [simp del]

text \<open>
  The rest of a string literal after its opening quote: the value of the string and the
  bytes after the closing quote.
\<close>

function scan_string :: "string \<Rightarrow> (string \<times> string) option" where
  "scan_string [] = None"
| "scan_string (c # cs) =
     (if c = CHR 0x22 then Some ([], cs)
      else (case string_item (c # cs) of
          None \<Rightarrow> None
        | Some (b, rest) \<Rightarrow> map_option (map_prod ((@) b) id) (scan_string rest)))"
  by pat_completeness auto
termination
  by (relation "measure length") (auto dest: string_item_shorter simp del: string_item.simps)

lemma scan_string_shorter: "scan_string cs = Some (s, rest) \<Longrightarrow> length rest < length cs"
proof (induction cs arbitrary: s rest rule: scan_string.induct)
  case 1
  then show ?case by simp
next
  case (2 c cs)
  show ?case
  proof (cases "c = CHR 0x22")
    case True
    with "2.prems" show ?thesis by simp
  next
    case False
    with "2.prems" obtain b r s' where
      it: "string_item (c # cs) = Some (b, r)" and sc: "scan_string r = Some (s', rest)"
      by (auto split: option.splits)
    from "2.IH" [OF False it refl sc] string_item_shorter [OF it] show ?thesis by simp
  qed
qed

subsection \<open>Tokens\<close>

datatype token =
    TLBrace | TRBrace | TLBracket | TRBracket | TColon | TComma
  | TString string | TNumber string | TTrue | TFalse | TNull

definition is_space :: "char \<Rightarrow> bool" where
  "is_space c = (c = CHR '' '' \<or> c = CHR 0x09 \<or> c = CHR 0x0D \<or> c = CHR 0x0A)"

definition is_digit :: "char \<Rightarrow> bool" where
  "is_digit c = in_range 0x30 0x39 c"

definition is_number_char :: "char \<Rightarrow> bool" where
  "is_number_char c =
     (is_digit c \<or> c = CHR ''-'' \<or> c = CHR ''+'' \<or> c = CHR ''.'' \<or> c = CHR ''e'' \<or> c = CHR ''E'')"

text \<open>The number grammar of the scanner: \<open>-? (0 | [1-9][0-9]*) (. [0-9]+)? ([eE] [+-]? [0-9]+)?\<close>.\<close>

definition number_exponent :: "string \<Rightarrow> bool" where
  "number_exponent s =
     (case s of
        [] \<Rightarrow> True
      | e # r \<Rightarrow>
          (e = CHR ''e'' \<or> e = CHR ''E'') \<and>
          (let d = (case r of x # r' \<Rightarrow> if x = CHR ''+'' \<or> x = CHR ''-'' then r' else r | [] \<Rightarrow> r)
           in d \<noteq> [] \<and> list_all is_digit d))"

definition number_fraction :: "string \<Rightarrow> bool" where
  "number_fraction s =
     (case s of
        c # r \<Rightarrow>
          if c = CHR ''.'' then takeWhile is_digit r \<noteq> [] \<and> number_exponent (dropWhile is_digit r)
          else number_exponent s
      | [] \<Rightarrow> True)"

definition valid_number :: "string \<Rightarrow> bool" where
  "valid_number s =
     (case (case s of c # r \<Rightarrow> if c = CHR ''-'' then r else s | [] \<Rightarrow> s) of
        [] \<Rightarrow> False
      | d # r \<Rightarrow>
          if d = CHR ''0'' then number_fraction r
          else is_digit d \<and> number_fraction (dropWhile is_digit r))"

text \<open>The token that starts the bytes, which do not start with white space.\<close>

definition next_token :: "string \<Rightarrow> (token \<times> string) option" where
  "next_token s =
     (case s of
        [] \<Rightarrow> None
      | c # cs \<Rightarrow>
          if c = CHR ''{'' then Some (TLBrace, cs)
          else if c = CHR ''}'' then Some (TRBrace, cs)
          else if c = CHR ''['' then Some (TLBracket, cs)
          else if c = CHR '']'' then Some (TRBracket, cs)
          else if c = CHR '':'' then Some (TColon, cs)
          else if c = CHR '','' then Some (TComma, cs)
          else if c = CHR 0x22 then map_option (map_prod TString id) (scan_string cs)
          else if c = CHR ''-'' \<or> is_digit c then
            (let lit = takeWhile is_number_char s in
             if valid_number lit then Some (TNumber lit, dropWhile is_number_char cs) else None)
          else if take 4 s = ''true'' then Some (TTrue, drop 4 s)
          else if take 5 s = ''false'' then Some (TFalse, drop 5 s)
          else if take 4 s = ''null'' then Some (TNull, drop 4 s)
          else None)"

lemma next_token_shorter: "next_token s = Some (t, rest) \<Longrightarrow> length rest < length s"
proof (cases s)
  case Nil
  then show "next_token s = Some (t, rest) \<Longrightarrow> length rest < length s"
    by (simp add: next_token_def)
next
  case (Cons c cs)
  have dw: "length (dropWhile is_number_char cs) \<le> length cs"
    by (rule length_dropWhile_le)
  assume "next_token s = Some (t, rest)"
  with Cons dw show "length rest < length s"
    by (auto simp: next_token_def Let_def split: if_splits dest: scan_string_shorter)
qed

function tokenize :: "string \<Rightarrow> token list option" where
  "tokenize [] = Some []"
| "tokenize (c # cs) =
     (if is_space c then tokenize cs
      else (case next_token (c # cs) of
          None \<Rightarrow> None
        | Some (t, rest) \<Rightarrow> map_option ((#) t) (tokenize rest)))"
  by pat_completeness auto
termination
  by (relation "measure length") (auto dest: next_token_shorter)

subsection \<open>Values\<close>

text \<open>
  The parser is the scanner's pushdown automaton: a stack of the arrays and objects that
  are open, each with what it holds so far, and what is expected next. The scanner refuses
  a text whose arrays and objects are nested more than \<open>maxNestingDepth\<close> deep.
\<close>

definition maxNestingDepth :: nat where
  "maxNestingDepth = 10000"

datatype frame =
    FArray "json list"
  | FObject "(string \<times> json) list" string

datatype pstate =
    BeginValue "frame list"
  | BeginArray "frame list"
  | BeginObject "frame list"
  | ObjectKey "(string \<times> json) list" "frame list"
  | ObjectColon "(string \<times> json) list" string "frame list"
  | EndValue json "frame list"

fun start_value :: "frame list \<Rightarrow> token \<Rightarrow> pstate option" where
  "start_value st (TString s) = Some (EndValue (JString s) st)"
| "start_value st (TNumber n) = Some (EndValue (JNumber n) st)"
| "start_value st TTrue = Some (EndValue (JBool True) st)"
| "start_value st TFalse = Some (EndValue (JBool False) st)"
| "start_value st TNull = Some (EndValue JNull st)"
| "start_value st TLBracket = (if length st < maxNestingDepth then Some (BeginArray st) else None)"
| "start_value st TLBrace = (if length st < maxNestingDepth then Some (BeginObject st) else None)"
| "start_value st _ = None"

fun parse_step :: "pstate \<Rightarrow> token \<Rightarrow> pstate option" where
  "parse_step (BeginValue st) t = start_value st t"
| "parse_step (BeginArray st) t =
     (if t = TRBracket then Some (EndValue (JArray []) st) else start_value (FArray [] # st) t)"
| "parse_step (BeginObject st) t =
     (case t of
        TRBrace \<Rightarrow> Some (EndValue (JObject []) st)
      | TString k \<Rightarrow> Some (ObjectColon [] k st)
      | _ \<Rightarrow> None)"
| "parse_step (ObjectKey ms st) t =
     (case t of TString k \<Rightarrow> Some (ObjectColon ms k st) | _ \<Rightarrow> None)"
| "parse_step (ObjectColon ms k st) t =
     (if t = TColon then Some (BeginValue (FObject ms k # st)) else None)"
| "parse_step (EndValue v []) t = None"
| "parse_step (EndValue v (FArray es # st)) t =
     (if t = TComma then Some (BeginValue (FArray (es @ [v]) # st))
      else if t = TRBracket then Some (EndValue (JArray (es @ [v])) st)
      else None)"
| "parse_step (EndValue v (FObject ms k # st)) t =
     (if t = TComma then Some (ObjectKey (ms @ [(k, v)]) st)
      else if t = TRBrace then Some (EndValue (JObject (ms @ [(k, v)])) st)
      else None)"

fun parse_tokens :: "pstate \<Rightarrow> token list \<Rightarrow> json option" where
  "parse_tokens (EndValue v []) [] = Some v"
| "parse_tokens p [] = None"
| "parse_tokens p (t # ts) =
     (case parse_step p t of None \<Rightarrow> None | Some p' \<Rightarrow> parse_tokens p' ts)"

text \<open>
  The value of a JSON text: one value with white space around it; \<open>None\<close> is the
  library's syntax error (\<open>checkValid\<close>).
\<close>

definition json_parse :: "string \<Rightarrow> json option" where
  "json_parse data = tokenize data \<bind> parse_tokens (BeginValue [])"

subsection \<open>Decoding into Go values\<close>

text \<open>
  \<open>json.Unmarshal(data, &v)\<close> checks the syntax of the whole text, then stores the value
  into \<open>v\<close> as the type of \<open>v\<close> says. It keeps the first type error and goes on, so that
  \<open>v\<close> can be partly filled when an error is returned. The type of \<open>v\<close> is the decoder
  \<open>dec\<close> here.
\<close>

definition first_error :: "error option \<Rightarrow> error option \<Rightarrow> error option" where
  "first_error saved e = (case saved of None \<Rightarrow> e | Some x \<Rightarrow> Some x)"

definition json_Unmarshal ::
    "(json \<Rightarrow> 'a \<Rightarrow> 'a \<times> error option) \<Rightarrow> string \<Rightarrow> 'a \<Rightarrow> error option \<times> 'a" where
  "json_Unmarshal dec data v =
     (case json_parse data of
        None \<Rightarrow> (Some SyntaxError, v)
      | Some j \<Rightarrow> (case dec j v of (v', err) \<Rightarrow> (err, v')))"

fun json_kind :: "json \<Rightarrow> string" where
  "json_kind JNull = ''null''"
| "json_kind (JBool _) = ''bool''"
| "json_kind (JNumber _) = ''number''"
| "json_kind (JString _) = ''string''"
| "json_kind (JArray _) = ''array''"
| "json_kind (JObject _) = ''object''"

text \<open>A JSON \<open>null\<close> leaves a string, a boolean, a number or a struct as it is.\<close>

definition decode_string :: "json \<Rightarrow> string \<Rightarrow> string \<times> error option" where
  "decode_string v old =
     (case v of
        JString s \<Rightarrow> (s, None)
      | JNull \<Rightarrow> (old, None)
      | _ \<Rightarrow> (old, Some (UnmarshalTypeError (json_kind v))))"

definition decode_bool :: "json \<Rightarrow> bool \<Rightarrow> bool \<times> error option" where
  "decode_bool v old =
     (case v of
        JBool b \<Rightarrow> (b, None)
      | JNull \<Rightarrow> (old, None)
      | _ \<Rightarrow> (old, Some (UnmarshalTypeError (json_kind v))))"

definition digits_value :: "string \<Rightarrow> nat" where
  "digits_value ds = foldl (\<lambda>n c. n * 10 + (byte c - 0x30)) 0 ds"

text \<open>\<open>strconv.ParseInt(s, 10, 64)\<close>: a sign and decimal digits, in the range of \<open>int64\<close>.\<close>

definition strconv_ParseInt :: "string \<Rightarrow> int option" where
  "strconv_ParseInt s =
     (let neg = (case s of c # _ \<Rightarrow> c = CHR ''-'' | [] \<Rightarrow> False);
          ds = (case s of c # r \<Rightarrow> if c = CHR ''-'' \<or> c = CHR ''+'' then r else s | [] \<Rightarrow> s);
          v = (if neg then - int (digits_value ds) else int (digits_value ds))
      in if ds = [] \<or> \<not> list_all is_digit ds then None
         else if - (2 ^ 63) \<le> v \<and> v < 2 ^ 63 then Some v
         else None)"

text \<open>Go's \<open>int\<close> and \<open>int64\<close> are 64-bit words (a 64-bit platform).\<close>

definition decode_int :: "json \<Rightarrow> 64 word \<Rightarrow> 64 word \<times> error option" where
  "decode_int v old =
     (case v of
        JNumber n \<Rightarrow>
          (case strconv_ParseInt n of
             Some i \<Rightarrow> (word_of_int i, None)
           | None \<Rightarrow> (old, Some (UnmarshalTypeError (''number '' @ n))))
      | JNull \<Rightarrow> (old, None)
      | _ \<Rightarrow> (old, Some (UnmarshalTypeError (json_kind v))))"

text \<open>
  Storing the value \<open>v\<close> of a member into the field that \<open>get\<close> reads and \<open>upd\<close> writes, with
  the decoder \<open>dec\<close> of the field's type; \<open>acc\<close> is the struct so far and the error saved so
  far.
\<close>

definition store_field ::
    "(json \<Rightarrow> 'f \<Rightarrow> 'f \<times> error option) \<Rightarrow> ('r \<Rightarrow> 'f) \<Rightarrow> (('f \<Rightarrow> 'f) \<Rightarrow> 'r \<Rightarrow> 'r) \<Rightarrow>
     json \<Rightarrow> 'r \<times> error option \<Rightarrow> 'r \<times> error option" where
  "store_field dec get upd v acc =
     (case dec v (get (fst acc)) of
        (x, e) \<Rightarrow> (upd (\<lambda>_. x) (fst acc), first_error (snd acc) e))"

text \<open>
  A struct takes the members of an object in their order, \<open>member\<close> storing each one (a
  member that names no field is skipped); it is left as it is by \<open>null\<close>, and any other
  value is a type error.
\<close>

definition decode_struct ::
    "('r \<times> error option \<Rightarrow> string \<times> json \<Rightarrow> 'r \<times> error option) \<Rightarrow> json \<Rightarrow> 'r \<Rightarrow> 'r \<times> error option" where
  "decode_struct member v r =
     (case v of
        JObject ms \<Rightarrow> foldl member (r, None) ms
      | JNull \<Rightarrow> (r, None)
      | _ \<Rightarrow> (r, Some (UnmarshalTypeError (json_kind v))))"

text \<open>
  A key of a JSON object names the field whose name is equal to it when letters are
  folded (\<open>foldName\<close>): ASCII letters to upper case, the long s (U+017F) to \<open>S\<close>, the Kelvin
  sign (U+212A) to \<open>K\<close>. The library folds the other characters beyond ASCII to characters
  beyond ASCII; they stay as they are here, which makes no difference for the names of
  this program, all ASCII.
\<close>

definition fold_byte :: "char \<Rightarrow> char" where
  "fold_byte c = (if in_range 0x61 0x7A c then char_of (byte c - 0x20) else c)"

fun foldName :: "string \<Rightarrow> string" where
  "foldName (c1 # c2 # c3 # cs) =
     (if c1 = CHR 0xE2 \<and> c2 = CHR 0x84 \<and> c3 = CHR 0xAA then CHR ''K'' # foldName cs
      else if c1 = CHR 0xC5 \<and> c2 = CHR 0xBF then CHR ''S'' # foldName (c3 # cs)
      else fold_byte c1 # foldName (c2 # c3 # cs))"
| "foldName [c1, c2] =
     (if c1 = CHR 0xC5 \<and> c2 = CHR 0xBF then ''S'' else [fold_byte c1, fold_byte c2])"
| "foldName [c1] = [fold_byte c1]"
| "foldName [] = []"

declare foldName.simps [simp del]

section \<open>NPF media (post.go)\<close>

record NpfMedia =
  Type :: string
  Url :: string
  Width :: "64 word"
  Height :: "64 word"

definition NpfMedia_zero :: NpfMedia where
  "NpfMedia_zero = \<lparr>Type = [], Url = [], Width = 0, Height = 0\<rparr>"

text \<open>A slice is \<open>nil\<close> (\<open>None\<close>) or a sequence, perhaps of length 0.\<close>

record NpfMediaContainer =
  Media :: NpfMedia
  MediaCollection :: "NpfMedia list option"
  IsArray :: bool

definition NpfMediaContainer_zero :: NpfMediaContainer where
  "NpfMediaContainer_zero = \<lparr>Media = NpfMedia_zero, MediaCollection = None, IsArray = False\<rparr>"

text \<open>
  The decoder of the type \<open>NpfMedia\<close>, with the tags \<open>type\<close>, \<open>url\<close>, \<open>width\<close> and \<open>height\<close>
  of its fields: the members of an object are stored in their order, a member that names
  no field is skipped.
\<close>

definition NpfMedia_member :: "NpfMedia \<times> error option \<Rightarrow> string \<times> json \<Rightarrow> NpfMedia \<times> error option" where
  "NpfMedia_member acc kv =
     (let f = foldName (fst kv); v = snd kv in
      if f = ''TYPE'' then store_field decode_string NpfMedia.Type NpfMedia.Type_update v acc
      else if f = ''URL'' then store_field decode_string NpfMedia.Url NpfMedia.Url_update v acc
      else if f = ''WIDTH'' then store_field decode_int Width Width_update v acc
      else if f = ''HEIGHT'' then store_field decode_int Height Height_update v acc
      else acc)"

definition decode_NpfMedia :: "json \<Rightarrow> NpfMedia \<Rightarrow> NpfMedia \<times> error option" where
  "decode_NpfMedia = decode_struct NpfMedia_member"

text \<open>
  The decoder of the type \<open>[]NpfMedia\<close> for a slice of capacity 0, the only one the source
  passes: every element of an array is decoded into a new zero value, and an empty array
  gives an empty slice that is not \<open>nil\<close>. A JSON \<open>null\<close> gives \<open>nil\<close>.
\<close>

definition decode_NpfMedia_slice ::
    "json \<Rightarrow> NpfMedia list option \<Rightarrow> NpfMedia list option \<times> error option" where
  "decode_NpfMedia_slice v old =
     (case v of
        JArray es \<Rightarrow>
          (Some (map (\<lambda>e. fst (decode_NpfMedia e NpfMedia_zero)) es),
           foldl first_error None (map (\<lambda>e. snd (decode_NpfMedia e NpfMedia_zero)) es))
      | JNull \<Rightarrow> (None, None)
      | _ \<Rightarrow> (old, Some (UnmarshalTypeError (json_kind v))))"

text \<open>
  \<open>NpfMediaContainer.UnmarshalJSON\<close>: the receiver \<open>n\<close> is passed in and returned with the
  error. \<open>data[0]\<close> panics on an empty slice.
\<close>

definition UnmarshalJSON ::
    "string \<Rightarrow> NpfMediaContainer \<Rightarrow> (error option \<times> NpfMediaContainer) outcome" where
  "UnmarshalJSON data n =
     (case data of
        [] \<Rightarrow> Panics (IndexOutOfRange 0 0)
      | c # _ \<Rightarrow>
          if c = CHR ''['' then
            (let mediaCollection = Some [] in
             case json_Unmarshal decode_NpfMedia_slice data mediaCollection of
               (err, mediaCollection) \<Rightarrow>
                 if err \<noteq> None then Returns (err, n)
                 else Returns (None, n\<lparr>MediaCollection := mediaCollection, IsArray := True\<rparr>))
          else if c = CHR ''{'' then
            (let media = NpfMedia_zero in
             case json_Unmarshal decode_NpfMedia data media of
               (err, media) \<Rightarrow>
                 if err \<noteq> None then Returns (err, n)
                 else Returns (None, n\<lparr>Media := media, IsArray := False\<rparr>))
          else Returns (Some (errorString ''unexpected char or whatever''), n))"

section \<open>Properties of the media decoder\<close>

subsection \<open>A text that starts with a bracket is an array\<close>

fun is_JArray :: "json \<Rightarrow> bool" where
  "is_JArray (JArray _) = True"
| "is_JArray _ = False"

fun is_FArray :: "frame \<Rightarrow> bool" where
  "is_FArray (FArray _) = True"
| "is_FArray _ = False"

text \<open>The outermost open value is an array.\<close>

definition array_stack :: "frame list \<Rightarrow> bool" where
  "array_stack st = (st \<noteq> [] \<and> is_FArray (last st))"

fun array_state :: "pstate \<Rightarrow> bool" where
  "array_state (BeginValue st) = array_stack st"
| "array_state (BeginArray st) = (st = [] \<or> array_stack st)"
| "array_state (BeginObject st) = array_stack st"
| "array_state (ObjectKey ms st) = array_stack st"
| "array_state (ObjectColon ms k st) = array_stack st"
| "array_state (EndValue v st) = (if st = [] then is_JArray v else array_stack st)"

lemma array_stack_Cons:
  "array_stack (f # st) = (if st = [] then is_FArray f else array_stack st)"
  by (simp add: array_stack_def)

lemma start_value_array:
  "array_stack st \<Longrightarrow> start_value st t = Some p \<Longrightarrow> array_state p"
  by (cases t) (auto simp: array_stack_def split: if_splits)

lemma parse_step_array:
  assumes "array_state p" and "parse_step p t = Some p'"
  shows "array_state p'"
proof (cases p)
  case (BeginValue st)
  with assms show ?thesis by (simp add: start_value_array)
next
  case (BeginArray st)
  with assms have "array_stack (FArray [] # st)"
    by (auto simp: array_stack_Cons)
  with BeginArray assms show ?thesis
    by (auto split: if_splits dest: start_value_array)
next
  case (BeginObject st)
  with assms show ?thesis by (auto split: token.splits simp: array_stack_def)
next
  case (ObjectKey ms st)
  with assms show ?thesis by (auto split: token.splits)
next
  case (ObjectColon ms k st)
  with assms show ?thesis by (auto split: if_splits simp: array_stack_Cons array_stack_def)
next
  case (EndValue v st)
  show ?thesis
  proof (cases st)
    case Nil
    with EndValue assms show ?thesis by simp
  next
    case (Cons f st')
    with EndValue assms show ?thesis
      by (cases f) (auto split: if_splits simp: array_stack_Cons)
  qed
qed

lemma parse_tokens_array:
  "array_state p \<Longrightarrow> parse_tokens p ts = Some j \<Longrightarrow> is_JArray j"
proof (induction ts arbitrary: p)
  case Nil
  then show ?case
    by (cases "(p, [] :: token list)" rule: parse_tokens.cases) auto
next
  case (Cons t ts)
  then show ?case
    by (cases "parse_step p t") (auto dest: parse_step_array)
qed

lemma json_parse_bracket:
  assumes "json_parse (CHR ''['' # rest) = Some j"
  shows "is_JArray j"
proof -
  have tok: "tokenize (CHR ''['' # rest) = map_option ((#) TLBracket) (tokenize rest)"
    by (simp add: is_space_def next_token_def)
  from assms obtain ts where ts: "tokenize rest = Some ts"
    and p: "parse_tokens (BeginValue []) (TLBracket # ts) = Some j"
    unfolding json_parse_def tok by (cases "tokenize rest") auto
  from p have "parse_tokens (BeginArray []) ts = Some j" by (simp add: maxNestingDepth_def)
  then show ?thesis by (rule parse_tokens_array [rotated]) simp
qed

lemma decode_NpfMedia_slice_array:
  assumes "json_Unmarshal decode_NpfMedia_slice (CHR ''['' # rest) old = (None, c)"
  shows "\<exists>ms. c = Some ms"
proof (cases "json_parse (CHR ''['' # rest)")
  case None
  with assms show ?thesis by (simp add: json_Unmarshal_def)
next
  case (Some j)
  then have "is_JArray j" by (rule json_parse_bracket)
  then obtain es where "j = JArray es" by (cases j) auto
  with Some assms show ?thesis
    by (auto simp: json_Unmarshal_def decode_NpfMedia_slice_def)
qed

subsection \<open>The claims\<close>

text \<open>
  C1. For every media JSON that the library decodes with no error: when its first byte is
  \<open>{\<close>, \<open>UnmarshalJSON\<close> sets \<open>Media\<close> to the decoded descriptor and \<open>IsArray\<close> to false,
  and leaves \<open>MediaCollection\<close> as it was (empty, for a new container); when its first byte
  is \<open>[\<close>, it sets \<open>MediaCollection\<close> to the decoded sequence, which is not \<open>nil\<close> and can
  have length 0, sets \<open>IsArray\<close> to true, and leaves \<open>Media\<close> as it was (the zero value, for
  a new container).
\<close>

theorem UnmarshalJSON_object_or_array:
  "(json_Unmarshal decode_NpfMedia (CHR ''{'' # rest) NpfMedia_zero = (None, m) \<longrightarrow>
      UnmarshalJSON (CHR ''{'' # rest) n = Returns (None, n\<lparr>Media := m, IsArray := False\<rparr>)
      \<and> UnmarshalJSON (CHR ''{'' # rest) NpfMediaContainer_zero =
            Returns (None, \<lparr>Media = m, MediaCollection = None, IsArray = False\<rparr>))
   \<and> (json_Unmarshal decode_NpfMedia_slice (CHR ''['' # rest) (Some []) = (None, c) \<longrightarrow>
      (\<exists>ms. c = Some ms)
      \<and> UnmarshalJSON (CHR ''['' # rest) n =
            Returns (None, n\<lparr>MediaCollection := c, IsArray := True\<rparr>)
      \<and> UnmarshalJSON (CHR ''['' # rest) NpfMediaContainer_zero =
            Returns (None, \<lparr>Media = NpfMedia_zero, MediaCollection = c, IsArray = True\<rparr>))"
  using decode_NpfMedia_slice_array [of rest "Some []" c]
  by (simp add: UnmarshalJSON_def NpfMediaContainer_zero_def)

theorem UnmarshalJSON_object_or_array_witness:
  \<open>json_Unmarshal decode_NpfMedia ''{"url":"u","width":3}'' NpfMedia_zero =
      (None, \<lparr>Type = [], Url = ''u'', Width = 3, Height = 0\<rparr>)
   \<and> UnmarshalJSON ''{"url":"u","width":3}'' NpfMediaContainer_zero =
      Returns (None, \<lparr>Media = \<lparr>Type = [], Url = ''u'', Width = 3, Height = 0\<rparr>,
                        MediaCollection = None, IsArray = False\<rparr>)
   \<and> json_Unmarshal decode_NpfMedia_slice ''[]'' (Some []) = (None, Some [])
   \<and> UnmarshalJSON ''[]'' NpfMediaContainer_zero =
      Returns (None, \<lparr>Media = NpfMedia_zero, MediaCollection = Some [], IsArray = True\<rparr>)\<close>
proof -
  have o: \<open>json_Unmarshal decode_NpfMedia ''{"url":"u","width":3}'' NpfMedia_zero =
      (None, \<lparr>Type = [], Url = ''u'', Width = 3, Height = 0\<rparr>)\<close>
    by code_simp
  have a: "json_Unmarshal decode_NpfMedia_slice ''[]'' (Some []) = (None, Some [])"
    by code_simp
  from o a
    UnmarshalJSON_object_or_array
      [of \<open>''"url":"u","width":3}''\<close> "\<lparr>Type = [], Url = ''u'', Width = 3, Height = 0\<rparr>"
          NpfMediaContainer_zero "Some []"]
    UnmarshalJSON_object_or_array
      [of "'']''" NpfMedia_zero NpfMediaContainer_zero "Some []"]
  show ?thesis by (simp add: NpfMediaContainer_zero_def)
qed

text \<open>
  An input that is not empty and starts with neither \<open>{\<close> nor \<open>[\<close> fails with the shape
  error, and the container is as before.
\<close>

lemma UnmarshalJSON_other_byte:
  "c \<noteq> CHR ''['' \<Longrightarrow> c \<noteq> CHR ''{'' \<Longrightarrow>
     UnmarshalJSON (c # rest) n = Returns (Some (errorString ''unexpected char or whatever''), n)"
  by (simp add: UnmarshalJSON_def)

text \<open>
  C2. The claim holds for every input that is not empty (lemma \<open>UnmarshalJSON_other_byte\<close>).
  On the empty input \<open>data[0]\<close> is out of range and the method panics, where the claim says
  that it fails with an error and does not crash.
\<close>

theorem UnmarshalJSON_empty_input_panics:
  "UnmarshalJSON [] n = Panics (IndexOutOfRange 0 0)"
  by (simp add: UnmarshalJSON_def)

text \<open>
  The invariant of the spec: exactly one of \<open>Media\<close> and \<open>MediaCollection\<close> is populated (is
  not the zero value of its type), and \<open>IsArray\<close> is true iff \<open>MediaCollection\<close> is the one,
  false iff \<open>Media\<close> is.
\<close>

definition Media_populated :: "NpfMediaContainer \<Rightarrow> bool" where
  "Media_populated c = (Media c \<noteq> NpfMedia_zero)"

definition MediaCollection_populated :: "NpfMediaContainer \<Rightarrow> bool" where
  "MediaCollection_populated c = (MediaCollection c \<noteq> None)"

definition exactly_one_populated :: "NpfMediaContainer \<Rightarrow> bool" where
  "exactly_one_populated c =
     ((Media_populated c \<noteq> MediaCollection_populated c)
      \<and> (IsArray c = MediaCollection_populated c)
      \<and> ((\<not> IsArray c) = Media_populated c))"

text \<open>
  C3. The claim fails: the object \<open>{}\<close> is decoded with no error into the zero descriptor,
  and the container is as before, with neither field populated.
\<close>

theorem UnmarshalJSON_empty_object_none_populated:
  "UnmarshalJSON ''{}'' NpfMediaContainer_zero = Returns (None, NpfMediaContainer_zero)
   \<and> \<not> exactly_one_populated NpfMediaContainer_zero"
proof -
  have "UnmarshalJSON ''{}'' NpfMediaContainer_zero = Returns (None, NpfMediaContainer_zero)"
    by code_simp
  moreover have "\<not> exactly_one_populated NpfMediaContainer_zero"
    by (simp add: exactly_one_populated_def Media_populated_def MediaCollection_populated_def
        NpfMediaContainer_zero_def)
  ultimately show ?thesis by simp
qed

text \<open>
  C3, amended. After a successful \<open>UnmarshalJSON\<close> on a zero-valued container, \<open>Media\<close> and
  \<open>MediaCollection\<close> are never both populated, \<open>IsArray\<close> is true iff \<open>MediaCollection\<close> is
  populated, and \<open>IsArray\<close> is false when \<open>Media\<close> is populated. (\<open>Media\<close> can be the zero
  value with \<open>IsArray\<close> false: that is how an object with no non-zero field is decoded.)
\<close>

theorem UnmarshalJSON_at_most_one_populated:
  assumes "UnmarshalJSON data NpfMediaContainer_zero = Returns (None, c)"
  shows "\<not> (Media_populated c \<and> MediaCollection_populated c)
         \<and> (IsArray c = MediaCollection_populated c)
         \<and> (Media_populated c \<longrightarrow> \<not> IsArray c)"
proof (cases data)
  case Nil
  with assms show ?thesis by (simp add: UnmarshalJSON_def)
next
  case (Cons b rest)
  show ?thesis
  proof (cases "b = CHR ''[''")
    case True
    obtain e ms where u: "json_Unmarshal decode_NpfMedia_slice (CHR ''['' # rest) (Some []) = (e, ms)"
      by (cases "json_Unmarshal decode_NpfMedia_slice (CHR ''['' # rest) (Some [])")
    with assms Cons True have e: "e = None"
      and c: "c = NpfMediaContainer_zero\<lparr>MediaCollection := ms, IsArray := True\<rparr>"
      by (auto simp: UnmarshalJSON_def split: if_splits)
    from u e decode_NpfMedia_slice_array [of rest "Some []" ms] obtain xs where "ms = Some xs"
      by auto
    with c show ?thesis
      by (simp add: Media_populated_def MediaCollection_populated_def NpfMediaContainer_zero_def)
  next
    case False
    with assms Cons show ?thesis
      by (auto simp: UnmarshalJSON_def Media_populated_def MediaCollection_populated_def
          NpfMediaContainer_zero_def split: if_splits prod.splits)
  qed
qed

theorem UnmarshalJSON_at_most_one_populated_witness:
  \<open>UnmarshalJSON ''[{"url":"u"}]'' NpfMediaContainer_zero =
     Returns (None, \<lparr>Media = NpfMedia_zero,
        MediaCollection = Some [\<lparr>Type = [], Url = ''u'', Width = 0, Height = 0\<rparr>],
        IsArray = True\<rparr>)
   \<and> \<not> Media_populated \<lparr>Media = NpfMedia_zero,
        MediaCollection = Some [\<lparr>Type = [], Url = ''u'', Width = 0, Height = 0\<rparr>],
        IsArray = True\<rparr>
   \<and> MediaCollection_populated \<lparr>Media = NpfMedia_zero,
        MediaCollection = Some [\<lparr>Type = [], Url = ''u'', Width = 0, Height = 0\<rparr>],
        IsArray = True\<rparr>\<close>
proof -
  have u: \<open>UnmarshalJSON ''[{"url":"u"}]'' NpfMediaContainer_zero =
     Returns (None, \<lparr>Media = NpfMedia_zero,
        MediaCollection = Some [\<lparr>Type = [], Url = ''u'', Width = 0, Height = 0\<rparr>],
        IsArray = True\<rparr>)\<close>
    by code_simp
  from u UnmarshalJSON_at_most_one_populated [OF u] show ?thesis by simp
qed

text \<open>
  C4. The claim fails: the method looks at \<open>data[0]\<close> and skips no white space, so that a
  text with a space before its bracket is refused.
\<close>

theorem UnmarshalJSON_leading_space_refused:
  "UnmarshalJSON '' []'' NpfMediaContainer_zero =
     Returns (Some (errorString ''unexpected char or whatever''), NpfMediaContainer_zero)
   \<and> UnmarshalJSON '' {}'' NpfMediaContainer_zero =
     Returns (Some (errorString ''unexpected char or whatever''), NpfMediaContainer_zero)"
  by (simp add: UnmarshalJSON_def)

text \<open>
  C4, amended. The method dispatches on the first byte of the value, \<open>data[0]\<close>: \<open>[\<close> is
  decoded as a collection and \<open>{\<close> as a single descriptor, with the error of the library
  returned and the container unmodified when the decoding fails; any other first byte,
  white space included, fails with the shape error and leaves the container unmodified.
\<close>

theorem UnmarshalJSON_dispatches_on_first_byte:
  "UnmarshalJSON (CHR ''['' # rest) n =
     (case json_Unmarshal decode_NpfMedia_slice (CHR ''['' # rest) (Some []) of
        (None, ms) \<Rightarrow> Returns (None, n\<lparr>MediaCollection := ms, IsArray := True\<rparr>)
      | (Some e, ms) \<Rightarrow> Returns (Some e, n))
   \<and> UnmarshalJSON (CHR ''{'' # rest) n =
     (case json_Unmarshal decode_NpfMedia (CHR ''{'' # rest) NpfMedia_zero of
        (None, m) \<Rightarrow> Returns (None, n\<lparr>Media := m, IsArray := False\<rparr>)
      | (Some e, m) \<Rightarrow> Returns (Some e, n))
   \<and> (b \<noteq> CHR ''['' \<and> b \<noteq> CHR ''{'' \<longrightarrow>
        UnmarshalJSON (b # rest) n =
          Returns (Some (errorString ''unexpected char or whatever''), n))
   \<and> (is_space b \<longrightarrow>
        UnmarshalJSON (b # rest) n =
          Returns (Some (errorString ''unexpected char or whatever''), n))"
  by (auto simp: UnmarshalJSON_def is_space_def split: prod.splits option.splits)

theorem UnmarshalJSON_dispatches_on_first_byte_witness:
  "is_space (CHR 0x09) \<and> CHR 0x09 \<noteq> CHR ''['' \<and> CHR 0x09 \<noteq> CHR ''{''
   \<and> UnmarshalJSON (CHR 0x09 # ''[]'') NpfMediaContainer_zero =
       Returns (Some (errorString ''unexpected char or whatever''), NpfMediaContainer_zero)"
  using UnmarshalJSON_dispatches_on_first_byte [of "''[]''" NpfMediaContainer_zero "CHR 0x09"]
  by (simp add: is_space_def)

section \<open>Path builder (tumblelog.go)\<close>

text \<open>
  \<open>normalizeBlogName\<close> and \<open>blogPath\<close>, as in the source. Their results are optional only
  because the model of \<open>fmt.Sprintf\<close> is partial.
\<close>

definition normalizeBlogName :: "string \<Rightarrow> string option" where
  "normalizeBlogName name =
     (if \<not> strings_Contains name ''.'' then fmt_Sprintf ''%s.tumblr.com'' name
      else Some name)"

definition blogPath :: "string \<Rightarrow> string \<Rightarrow> string option" where
  "blogPath path name = do { n \<leftarrow> normalizeBlogName name; fmt_Sprintf path n }"

section \<open>Properties of the path builder\<close>

lemma strings_Contains_char: "strings_Contains s [c] = (c \<in> set s)"
  by (induction s) (auto simp: strings_HasPrefix_def)

lemma doPrintf_literal:
  "CHR ''%'' \<notin> set pre \<Longrightarrow> doPrintf (pre @ fmt) a used = map_option ((@) pre) (doPrintf fmt a used)"
proof (induction pre)
  case Nil
  show ?case by (cases "doPrintf fmt a used") simp_all
next
  case (Cons c pre)
  then have "c \<noteq> CHR ''%''" and "CHR ''%'' \<notin> set pre" by auto
  with Cons.IH show ?case by (cases "doPrintf fmt a used") simp_all
qed

lemma doPrintf_tail:
  "CHR ''%'' \<notin> set post \<Longrightarrow> doPrintf post a True = Some post"
  by (induction post) auto

lemma fmt_Sprintf_one_placeholder:
  assumes "CHR ''%'' \<notin> set pre" and "CHR ''%'' \<notin> set post"
  shows "fmt_Sprintf (pre @ ''%s'' @ post) a = Some (pre @ a @ post)"
  using assms by (simp add: fmt_Sprintf_def doPrintf_literal doPrintf_tail)

lemma normalizeBlogName_eq:
  "normalizeBlogName name =
     Some (if CHR ''.'' \<in> set name then name else name @ ''.tumblr.com'')"
  using fmt_Sprintf_one_placeholder [of "[]" "''.tumblr.com''" name]
  by (simp add: normalizeBlogName_def strings_Contains_char)

text \<open>
  C5. Path building substitutes the normalized identifier for the placeholder of the
  template: an identifier with no \<open>.\<close> gets the suffix \<open>.tumblr.com\<close>, any other identifier is
  used as it is. In particular the template \<open>/blog/%s/info\<close> gives
  \<open>/blog/foo.tumblr.com/info\<close> for \<open>foo\<close> and \<open>/blog/foo.example.com/info\<close> for
  \<open>foo.example.com\<close>.
\<close>

theorem blogPath_substitutes_normalized:
  "normalizeBlogName name =
      Some (if CHR ''.'' \<in> set name then name else name @ ''.tumblr.com'')
   \<and> (CHR ''%'' \<notin> set pre \<and> CHR ''%'' \<notin> set post \<longrightarrow>
        blogPath (pre @ ''%s'' @ post) name =
          Some (pre @ (if CHR ''.'' \<in> set name then name else name @ ''.tumblr.com'') @ post))
   \<and> blogPath ''/blog/%s/info'' ''foo'' = Some ''/blog/foo.tumblr.com/info''
   \<and> blogPath ''/blog/%s/info'' ''foo.example.com'' = Some ''/blog/foo.example.com/info''"
proof -
  have gen: "blogPath (p @ ''%s'' @ q) n =
      Some (p @ (if CHR ''.'' \<in> set n then n else n @ ''.tumblr.com'') @ q)"
    if "CHR ''%'' \<notin> set p" "CHR ''%'' \<notin> set q" for p q n
    using fmt_Sprintf_one_placeholder [OF that]
    by (simp add: blogPath_def normalizeBlogName_eq)
  have e1: "blogPath ''/blog/%s/info'' ''foo'' = Some ''/blog/foo.tumblr.com/info''"
    using gen [of "''/blog/''" "''/info''" "''foo''"] by simp
  have e2: "blogPath ''/blog/%s/info'' ''foo.example.com'' = Some ''/blog/foo.example.com/info''"
    using gen [of "''/blog/''" "''/info''" "''foo.example.com''"] by simp
  show ?thesis using gen e1 e2 by (simp add: normalizeBlogName_eq)
qed

theorem blogPath_substitutes_normalized_witness:
  "CHR ''%'' \<notin> set ''/blog/'' \<and> CHR ''%'' \<notin> set ''/avatar''
   \<and> blogPath ''/blog/%s/avatar'' ''staff'' = Some ''/blog/staff.tumblr.com/avatar''"
  using blogPath_substitutes_normalized [of "''staff''" "''/blog/''" "''/avatar''"] by simp

text \<open>
  C10. \<open>normalizeBlogName\<close> is idempotent: the suffix it appends contains a \<open>.\<close>, so that a
  second application appends nothing.
\<close>

theorem normalizeBlogName_idempotent:
  "normalizeBlogName s \<bind> normalizeBlogName = normalizeBlogName s"
  by (simp add: normalizeBlogName_eq)

section \<open>Client capability and responses\<close>

text \<open>
  Modelled from the spec: the type \<open>Response\<close>, whose declaration is not under src/. A
  response exposes a byte body and a header map; \<open>Result\<close> is the map that
  \<open>PopulateFromBody\<close> fills from the body. The maps are association lists, read with
  \<open>map_of\<close>; a value of type \<open>interface{}\<close> is the JSON value it was decoded from.
\<close>

record Response =
  body :: string
  Headers :: "(string \<times> string list) list"
  Result :: "(string \<times> json) list"

definition Response_zero :: Response where
  "Response_zero = \<lparr>body = [], Headers = [], Result = []\<rparr>"

text \<open>
  \<open>Headers.Get(key)\<close>: the first value of the header, or the empty string when there is
  none. The key \<open>Location\<close> of the source is in canonical form already.
\<close>

definition Headers_Get :: "(string \<times> string list) list \<Rightarrow> string \<Rightarrow> string" where
  "Headers_Get h key =
     (case map_of h key of
        None \<Rightarrow> []
      | Some [] \<Rightarrow> []
      | Some (v # _) \<Rightarrow> v)"

text \<open>
  Modelled from the spec: the interface \<open>ClientInterface\<close>, whose declaration is not under
  src/: \<open>Get(path)\<close> and \<open>GetWithParams(path, params)\<close> return a response or a transport
  error. A call is a step of the world behind the client, of type \<open>'s\<close>: it takes the state
  before the request and returns the state after it.
\<close>

type_synonym url_Values = "(string \<times> string list) list"

record 's ClientInterface =
  Get :: "string \<Rightarrow> 's \<Rightarrow> (Response \<times> error option) \<times> 's"
  GetWithParams :: "string \<Rightarrow> url_Values \<Rightarrow> 's \<Rightarrow> (Response \<times> error option) \<times> 's"

text \<open>
  Modelled from the spec: \<open>Response.PopulateFromBody\<close>, whose source is not under src/. It
  parses the body, an envelope \<open>{"response": {...}}\<close>, and stores the members of the
  response object in \<open>Result\<close> (a later member of the same name wins); it returns the
  error of the JSON library when the body is not such a text.
\<close>

definition decode_Result :: "json \<Rightarrow> (string \<times> json) list \<Rightarrow> (string \<times> json) list \<times> error option" where
  "decode_Result v old =
     (case v of
        JObject ms \<Rightarrow> (rev ms @ old, None)
      | JNull \<Rightarrow> ([], None)
      | _ \<Rightarrow> (old, Some (UnmarshalTypeError (json_kind v))))"

definition Response_member :: "Response \<times> error option \<Rightarrow> string \<times> json \<Rightarrow> Response \<times> error option" where
  "Response_member acc kv =
     (if foldName (fst kv) = ''RESPONSE'' then store_field decode_Result Result Result_update (snd kv) acc
      else acc)"

definition PopulateFromBody :: "Response \<Rightarrow> error option \<times> Response" where
  "PopulateFromBody r = json_Unmarshal (decode_struct Response_member) (body r) r"

section \<open>Entities (post.go, tumblelog.go)\<close>

text \<open>
  The structs of the source. An embedded struct is a field that has the name of its type;
  a slice is \<open>nil\<close> (\<open>None\<close>) or a sequence; the field \<open>client\<close> holds an interface value,
  \<open>nil\<close> or a client.
\<close>

record MiniPost =
  Id :: "64 word"
  Type :: string
  BlogName :: string
  ReblogKey :: string

record 's PostRef =
  MiniPost :: MiniPost
  client :: "'s ClientInterface option"

record BlogMiniInfo =
  Name :: string
  Title :: string
  Description :: string
  Url :: string
  Updated :: "64 word"
  UUID :: string

record Note =
  Type :: string
  Timestamp :: "64 word"
  BlogName :: string
  BlogUUID :: string
  BlogUrl :: string
  Followed :: bool
  AvatarShape :: string
  ReplyText :: string
  PostID :: string
  ReblogParentBlogName :: string

record NpfLink =
  Url :: string
  DisplayUrl :: string
  Title :: string
  Description :: string
  Author :: string
  SiteName :: string

record Formatting =
  Type :: string
  Url :: string
  Blog :: BlogMiniInfo

record NpfContent =
  Type :: string
  Subtype :: string
  Text :: string
  Formatting :: "Formatting list option"
  Media :: NpfMediaContainer
  AltText :: string
  NpfLink :: NpfLink
  Poster :: NpfMediaContainer

record TrailPost =
  Id :: string

record BrokenBlog =
  Name :: string

record NpfTrail =
  Post :: TrailPost
  Blog :: BlogMiniInfo
  Content :: "NpfContent list option"
  BrokenBlog :: BrokenBlog

record Reblog =
  Comment :: string
  TreeHTML :: string

record 's Post =
  PostRef :: "'s PostRef"
  Body :: string
  CanLike :: bool
  CanReblog :: bool
  CanReply :: bool
  CanSendInMessage :: bool
  Caption :: string
  Date :: string
  DisplayAvatar :: bool
  Followed :: bool
  Format :: string
  Highlighted :: "json list option"
  Liked :: bool
  NoteCount :: "64 word"
  PermalinkUrl :: string
  PostUrl :: string
  Reblog :: Reblog
  Notes :: "Note list option"
  RecommendedColor :: string
  RecommendedSource :: bool
  ShortUrl :: string
  Slug :: string
  SourceTitle :: string
  SourceUrl :: string
  State :: string
  Summary :: string
  Tags :: "string list option"
  Timestamp :: "64 word"
  FeaturedTimestamp :: "64 word"
  TrackName :: string
  Content :: "NpfContent list option"
  Trail :: "NpfTrail list option"

record 's Posts =
  client :: "'s ClientInterface option"
  response :: Response
  Posts :: "'s Post list option"
  TotalPosts :: "64 word"

definition Posts_zero :: "'s Posts" where
  "Posts_zero = \<lparr>client = None, response = Response_zero, Posts = None, TotalPosts = 0\<rparr>"

record 's BlogRef =
  client :: "'s ClientInterface option"
  Name :: string

record 's Blog =
  BlogRef :: "'s BlogRef"
  Url :: string
  Title :: string
  Posts :: "64 word"
  Ask :: bool
  AskAnon :: bool
  AskAnonPageTitle :: string
  CanSendFanMail :: bool
  CanSubmit :: bool
  CanSubscribe :: bool
  Description :: string
  Followed :: bool
  IsBlockedFromPrimary :: bool
  IsNSFW :: bool
  ShareLikes :: bool
  SubmissionPageTitle :: string
  Subscribed :: bool
  TotalPosts :: "64 word"
  Updated :: "64 word"
  UUID :: string

definition Blog_zero :: "'s Blog" where
  "Blog_zero =
     \<lparr>BlogRef = \<lparr>client = None, Name = []\<rparr>, Url = [], Title = [], Posts = 0, Ask = False,
      AskAnon = False, AskAnonPageTitle = [], CanSendFanMail = False, CanSubmit = False,
      CanSubscribe = False, Description = [], Followed = False, IsBlockedFromPrimary = False,
      IsNSFW = False, ShareLikes = False, SubmissionPageTitle = [], Subscribed = False,
      TotalPosts = 0, Updated = 0, UUID = []\<rparr>"

text \<open>
  The decoder of the type \<open>Blog\<close>, by the tags of its fields. The field \<open>Name\<close> of the
  embedded \<open>BlogRef\<close> is promoted, the field \<open>client\<close> is not exported and is never stored.
\<close>

definition BlogRef_Name_update :: "(string \<Rightarrow> string) \<Rightarrow> 's Blog \<Rightarrow> 's Blog" where
  "BlogRef_Name_update f b = b\<lparr>BlogRef := (BlogRef b)\<lparr>Name := f (BlogRef.Name (BlogRef b))\<rparr>\<rparr>"

definition Blog_member :: "'s Blog \<times> error option \<Rightarrow> string \<times> json \<Rightarrow> 's Blog \<times> error option" where
  "Blog_member acc kv =
     (let f = foldName (fst kv); v = snd kv in
      if f = ''NAME'' then store_field decode_string (\<lambda>b. BlogRef.Name (BlogRef b)) BlogRef_Name_update v acc
      else if f = ''URL'' then store_field decode_string Blog.Url Blog.Url_update v acc
      else if f = ''TITLE'' then store_field decode_string Blog.Title Blog.Title_update v acc
      else if f = ''POSTS'' then store_field decode_int Blog.Posts Blog.Posts_update v acc
      else if f = ''ASK'' then store_field decode_bool Ask Ask_update v acc
      else if f = ''ASK_ANON'' then store_field decode_bool AskAnon AskAnon_update v acc
      else if f = ''ASK_PAGE_TITLE'' then
        store_field decode_string AskAnonPageTitle AskAnonPageTitle_update v acc
      else if f = ''CAN_SEND_FAN_MAIL'' then
        store_field decode_bool CanSendFanMail CanSendFanMail_update v acc
      else if f = ''CAN_SUBMIT'' then store_field decode_bool CanSubmit CanSubmit_update v acc
      else if f = ''CAN_SUBSCRIBE'' then store_field decode_bool CanSubscribe CanSubscribe_update v acc
      else if f = ''DESCRIPTION'' then
        store_field decode_string Blog.Description Blog.Description_update v acc
      else if f = ''FOLLOWED'' then store_field decode_bool Blog.Followed Blog.Followed_update v acc
      else if f = ''IS_BLOCKED_FROM_PRIMARY'' then
        store_field decode_bool IsBlockedFromPrimary IsBlockedFromPrimary_update v acc
      else if f = ''IS_NSFW'' then store_field decode_bool IsNSFW IsNSFW_update v acc
      else if f = ''SHARE_LIKES'' then store_field decode_bool ShareLikes ShareLikes_update v acc
      else if f = ''SUBMISSION_PAGE_TITLE'' then
        store_field decode_string SubmissionPageTitle SubmissionPageTitle_update v acc
      else if f = ''SUBSCRIBED'' then store_field decode_bool Subscribed Subscribed_update v acc
      else if f = ''TOTAL_POSTS'' then
        store_field decode_int Blog.TotalPosts Blog.TotalPosts_update v acc
      else if f = ''UPDATED'' then store_field decode_int Blog.Updated Blog.Updated_update v acc
      else if f = ''UUID'' then store_field decode_string Blog.UUID Blog.UUID_update v acc
      else acc)"

definition decode_Blog :: "json \<Rightarrow> 's Blog \<Rightarrow> 's Blog \<times> error option" where
  "decode_Blog = decode_struct Blog_member"

text \<open>
  The envelope of \<open>GetBlogInfo\<close>, \<open>struct { Response struct { Blog Blog } }\<close> with the tags
  \<open>response\<close> and \<open>blog\<close>, and the envelope of \<open>queryPosts\<close>, \<open>struct { Response Posts }\<close>.
\<close>

record 's BlogResponse =
  Blog :: "'s Blog"

record 's BlogEnvelope =
  Response :: "'s BlogResponse"

definition BlogResponse_member ::
    "'s BlogResponse \<times> error option \<Rightarrow> string \<times> json \<Rightarrow> 's BlogResponse \<times> error option" where
  "BlogResponse_member acc kv =
     (if foldName (fst kv) = ''BLOG'' then
        store_field decode_Blog BlogResponse.Blog BlogResponse.Blog_update (snd kv) acc
      else acc)"

definition BlogEnvelope_member ::
    "'s BlogEnvelope \<times> error option \<Rightarrow> string \<times> json \<Rightarrow> 's BlogEnvelope \<times> error option" where
  "BlogEnvelope_member acc kv =
     (if foldName (fst kv) = ''RESPONSE'' then
        store_field (decode_struct BlogResponse_member) BlogEnvelope.Response
          BlogEnvelope.Response_update (snd kv) acc
      else acc)"

definition decode_BlogEnvelope :: "json \<Rightarrow> 's BlogEnvelope \<Rightarrow> 's BlogEnvelope \<times> error option" where
  "decode_BlogEnvelope = decode_struct BlogEnvelope_member"

record 's PostsEnvelope =
  Response :: "'s Posts"

section \<open>Query helpers (tumblelog.go, post.go)\<close>

text \<open>
  The client is \<open>clnt\<close> and a response \<open>resp\<close> here, as \<open>client\<close> and \<open>response\<close> name
  fields. Each helper takes the state of the world before its request and returns its two results
  with the state after. A pointer result is \<open>nil\<close> (\<open>None\<close>) or an entity. The results are
  optional only because \<open>blogPath\<close> is.
\<close>

definition GetBlogInfo ::
    "'s ClientInterface \<Rightarrow> string \<Rightarrow> 's \<Rightarrow> (('s Blog option \<times> error option) \<times> 's) option" where
  "GetBlogInfo clnt name s =
     (case blogPath ''/blog/%s/info'' name of
        None \<Rightarrow> None
      | Some path \<Rightarrow>
          (case Get clnt path s of
             ((resp, err), s') \<Rightarrow>
               Some
                 (if err \<noteq> None then ((None, err), s')
                  else
                    (let blog = \<lparr>BlogEnvelope.Response = \<lparr>Blog = Blog_zero\<rparr>\<rparr> in
                     case json_Unmarshal decode_BlogEnvelope (body resp) blog of
                       (err, blog) \<Rightarrow>
                         if err \<noteq> None then ((None, err), s')
                         else
                           ((Some ((BlogResponse.Blog (BlogEnvelope.Response blog))
                                \<lparr>BlogRef := (BlogRef (BlogResponse.Blog (BlogEnvelope.Response blog)))
                                     \<lparr>BlogRef.client := Some clnt\<rparr>\<rparr>),
                             None), s')))))"

text \<open>
  \<open>GetAvatar\<close>. The method \<open>PopulateFromBody\<close> of the response, which updates the response
  and returns an error, is the parameter \<open>populate\<close>.
\<close>

definition GetAvatar ::
    "(Response \<Rightarrow> error option \<times> Response) \<Rightarrow> 's ClientInterface \<Rightarrow> string \<Rightarrow> 's \<Rightarrow>
     ((string \<times> error option) \<times> 's) option" where
  "GetAvatar populate clnt name s =
     (case blogPath ''/blog/%s/avatar'' name of
        None \<Rightarrow> None
      | Some path \<Rightarrow>
          (case Get clnt path s of
             ((resp, err), s') \<Rightarrow>
               Some
                 (if err \<noteq> None then (([], err), s')
                  else
                    (let location = Headers_Get (Headers resp) ''Location'' in
                     if length location > 0 then ((location, None), s')
                     else
                       (case populate resp of
                          (err, resp) \<Rightarrow>
                            if err \<noteq> None then (([], err), s')
                            else
                              (case map_of (Result resp) ''location'' of
                                 Some (JString location) \<Rightarrow> ((location, None), s')
                               | _ \<Rightarrow>
                                   (([], Some (errorString ''Unable to detect avatar location'')),
                                    s')))))))"

text \<open>
  \<open>queryPosts\<close> and \<open>GetPosts\<close>. The decoder of the library for the envelope of the posts,
  \<open>json.Unmarshal(response.body, &posts)\<close>, is the parameter \<open>unmarshal\<close>: it takes the body
  and the zero envelope and returns the error with the envelope it has filled.
\<close>

definition queryPosts ::
    "(string \<Rightarrow> 's PostsEnvelope \<Rightarrow> error option \<times> 's PostsEnvelope) \<Rightarrow> 's ClientInterface \<Rightarrow>
     string \<Rightarrow> string \<Rightarrow> url_Values \<Rightarrow> 's \<Rightarrow> (('s Posts option \<times> error option) \<times> 's) option" where
  "queryPosts unmarshal clnt path name params s =
     (case blogPath path name of
        None \<Rightarrow> None
      | Some p \<Rightarrow>
          (case GetWithParams clnt p params s of
             ((resp, err), s') \<Rightarrow>
               Some
                 (if err \<noteq> None then ((None, err), s')
                  else
                    (let posts = \<lparr>PostsEnvelope.Response = Posts_zero\<rparr> in
                     case unmarshal (body resp) posts of
                       (err, posts) \<Rightarrow>
                         if err = None then
                           ((Some ((PostsEnvelope.Response posts)
                                \<lparr>Posts.response := resp, Posts.client := Some clnt\<rparr>),
                             None), s')
                         else ((None, err), s')))))"

definition GetPosts ::
    "(string \<Rightarrow> 's PostsEnvelope \<Rightarrow> error option \<times> 's PostsEnvelope) \<Rightarrow> 's ClientInterface \<Rightarrow>
     string \<Rightarrow> url_Values \<Rightarrow> 's \<Rightarrow> (('s Posts option \<times> error option) \<times> 's) option" where
  "GetPosts unmarshal clnt name params s =
     queryPosts unmarshal clnt ''/blog/%s/posts'' name params s"

section \<open>Properties of the query helpers\<close>

text \<open>
  A client for concrete runs: it answers every request with the response \<open>r\<close> and the
  error \<open>e\<close>, and its state counts the requests.
\<close>

definition fixed_client :: "Response \<Rightarrow> error option \<Rightarrow> nat ClientInterface" where
  "fixed_client r e =
     \<lparr>Get = (\<lambda>path n. ((r, e), Suc n)), GetWithParams = (\<lambda>path params n. ((r, e), Suc n))\<rparr>"

lemma blogPath_blog:
  assumes "normalizeBlogName name = Some h" and "CHR ''%'' \<notin> set post"
  shows "blogPath (''/blog/'' @ ''%s'' @ post) name = Some (''/blog/'' @ h @ post)"
  using assms fmt_Sprintf_one_placeholder [of "''/blog/''" post h]
  by (simp add: blogPath_def)

lemma blogPath_info:
  "normalizeBlogName name = Some h \<Longrightarrow> blogPath ''/blog/%s/info'' name = Some (''/blog/'' @ h @ ''/info'')"
  using blogPath_blog [of name h "''/info''"] by simp

lemma blogPath_avatar:
  "normalizeBlogName name = Some h \<Longrightarrow>
     blogPath ''/blog/%s/avatar'' name = Some (''/blog/'' @ h @ ''/avatar'')"
  using blogPath_blog [of name h "''/avatar''"] by simp

lemma blogPath_posts:
  "normalizeBlogName name = Some h \<Longrightarrow>
     blogPath ''/blog/%s/posts'' name = Some (''/blog/'' @ h @ ''/posts'')"
  using blogPath_blog [of name h "''/posts''"] by simp

text \<open>
  C6. The claim fails where it says that the avatar error is returned exactly when neither
  source yields a location: with no \<open>Location\<close> header and a body that is not JSON (here the
  empty body), neither source yields one, and \<open>GetAvatar\<close> returns the error of the parser.
\<close>

theorem GetAvatar_unparsable_body_error:
  "Headers_Get (Headers Response_zero) ''Location'' = []
   \<and> PopulateFromBody Response_zero = (Some SyntaxError, Response_zero)
   \<and> GetAvatar PopulateFromBody (fixed_client Response_zero None) ''staff'' 0 =
        Some (([], Some SyntaxError), 1)
   \<and> SyntaxError \<noteq> errorString ''Unable to detect avatar location''"
proof -
  have p: "PopulateFromBody Response_zero = (Some SyntaxError, Response_zero)"
    by code_simp
  have h: "Headers_Get (Headers Response_zero) ''Location'' = []"
    by (simp add: Headers_Get_def Response_zero_def)
  have "GetAvatar PopulateFromBody (fixed_client Response_zero None) ''staff'' 0 =
        Some (([], Some SyntaxError), 1)"
    using blogPath_avatar [OF normalizeBlogName_eq, of "''staff''"]
    by (simp add: GetAvatar_def fixed_client_def p h)
  with p h show ?thesis by simp
qed

text \<open>
  C6, amended. For every response that the transport returns with no error: \<open>GetAvatar\<close>
  returns the value of the \<open>Location\<close> header when it is not empty, whatever the body is and
  without parsing it; only when the header is absent or empty does it parse the body. Then
  an error of the parsing is returned as it is; a string under the key \<open>location\<close> of the
  parsed body is returned; and the avatar error is returned exactly when the header is
  empty, the body is parsed with no error (or with that very error) and has no string under
  \<open>location\<close>.
\<close>

theorem GetAvatar_header_then_body:
  assumes "normalizeBlogName name = Some h"
    and "Get clnt (''/blog/'' @ h @ ''/avatar'') s = ((resp, None), s')"
  shows
    "(Headers_Get (Headers resp) ''Location'' \<noteq> [] \<longrightarrow>
        GetAvatar populate clnt name s =
          Some ((Headers_Get (Headers resp) ''Location'', None), s'))
     \<and> (Headers_Get (Headers resp) ''Location'' = [] \<and> populate resp = (Some e, r') \<longrightarrow>
        GetAvatar populate clnt name s = Some (([], Some e), s'))
     \<and> (Headers_Get (Headers resp) ''Location'' = [] \<and> populate resp = (None, r')
          \<and> map_of (Result r') ''location'' = Some (JString l) \<longrightarrow>
        GetAvatar populate clnt name s = Some ((l, None), s'))
     \<and> ((\<exists>v. GetAvatar populate clnt name s =
              Some ((v, Some (errorString ''Unable to detect avatar location'')), s')) =
        (Headers_Get (Headers resp) ''Location'' = []
         \<and> (fst (populate resp) = Some (errorString ''Unable to detect avatar location'')
              \<or> (fst (populate resp) = None
                  \<and> (\<forall>x. map_of (Result (snd (populate resp))) ''location'' \<noteq> Some (JString x))))))"
proof -
  note bp = blogPath_avatar [OF assms(1)]
  show ?thesis
  proof (cases "Headers_Get (Headers resp) ''Location'' = []")
    case False
    with bp assms(2) show ?thesis by (simp add: GetAvatar_def)
  next
    case True
    obtain pe pr where pp: "populate resp = (pe, pr)" by (cases "populate resp")
    show ?thesis
    proof (cases pe)
      case (Some x)
      with bp assms(2) True pp show ?thesis by (auto simp: GetAvatar_def)
    next
      case None
      show ?thesis
      proof (cases "\<exists>x. map_of (Result pr) ''location'' = Some (JString x)")
        case True
        then obtain x where "map_of (Result pr) ''location'' = Some (JString x)" ..
        with bp assms(2) \<open>Headers_Get (Headers resp) ''Location'' = []\<close> pp None show ?thesis
          by (auto simp: GetAvatar_def)
      next
        case False
        with bp assms(2) \<open>Headers_Get (Headers resp) ''Location'' = []\<close> pp None show ?thesis
          by (auto simp: GetAvatar_def split: option.splits json.splits)
      qed
    qed
  qed
qed

theorem GetAvatar_header_then_body_witness:
  \<open>GetAvatar PopulateFromBody
      (fixed_client \<lparr>body = [], Headers = [(''Location'', [''https://x/y.png''])], Result = []\<rparr> None)
      ''staff'' 0 = Some ((''https://x/y.png'', None), 1)
   \<and> GetAvatar PopulateFromBody
      (fixed_client \<lparr>body = ''{"response":{"location":"u"}}'', Headers = [], Result = []\<rparr> None)
      ''staff'' 0 = Some ((''u'', None), 1)
   \<and> (\<exists>v. GetAvatar PopulateFromBody
      (fixed_client \<lparr>body = ''{"response":{}}'', Headers = [], Result = []\<rparr> None)
      ''staff'' 0 = Some ((v, Some (errorString ''Unable to detect avatar location'')), 1))\<close>
proof -
  define r1 where "r1 = \<lparr>body = [], Headers = [(''Location'', [''https://x/y.png''])], Result = []\<rparr>"
  define r2 where \<open>r2 = \<lparr>body = ''{"response":{"location":"u"}}'', Headers = [], Result = []\<rparr>\<close>
  define r3 where \<open>r3 = \<lparr>body = ''{"response":{}}'', Headers = [], Result = []\<rparr>\<close>
  have n: "normalizeBlogName ''staff'' = Some ''staff.tumblr.com''"
    by (simp add: normalizeBlogName_eq)
  have g: "Get (fixed_client r None) (''/blog/'' @ ''staff.tumblr.com'' @ ''/avatar'') 0 = ((r, None), 1)"
    for r by (simp add: fixed_client_def)
  have h1: "Headers_Get (Headers r1) ''Location'' = ''https://x/y.png''"
    by (simp add: r1_def Headers_Get_def)
  have h2: "Headers_Get (Headers r2) ''Location'' = []"
    by (simp add: r2_def Headers_Get_def)
  have h3: "Headers_Get (Headers r3) ''Location'' = []"
    by (simp add: r3_def Headers_Get_def)
  have p2: "PopulateFromBody r2 = (None, r2\<lparr>Result := [(''location'', JString ''u'')]\<rparr>)"
    unfolding r2_def by code_simp
  have p3: "PopulateFromBody r3 = (None, r3)"
    unfolding r3_def by code_simp
  have "GetAvatar PopulateFromBody (fixed_client r1 None) ''staff'' 0 =
      Some ((''https://x/y.png'', None), 1)"
    using GetAvatar_header_then_body [OF n g, of r1 PopulateFromBody] h1 by simp
  moreover have "GetAvatar PopulateFromBody (fixed_client r2 None) ''staff'' 0 =
      Some ((''u'', None), 1)"
    using GetAvatar_header_then_body [OF n g, of r2 PopulateFromBody _
        "r2\<lparr>Result := [(''location'', JString ''u'')]\<rparr>" "''u''"] h2 p2
    by simp
  moreover have "\<exists>v. GetAvatar PopulateFromBody (fixed_client r3 None) ''staff'' 0 =
      Some ((v, Some (errorString ''Unable to detect avatar location'')), 1)"
    using GetAvatar_header_then_body [OF n g, of r3 PopulateFromBody] h3 p3
    by (simp add: r3_def)
  ultimately show ?thesis unfolding r1_def r2_def r3_def by simp
qed

text \<open>
  C7. Each query helper issues one request. When the transport fails, it returns the error
  of the transport as it is, with \<open>nil\<close> (the empty string, for \<open>GetAvatar\<close>); when the
  decoding of the body fails, it returns the error of the decoder as it is, with \<open>nil\<close> (the
  empty string). When both succeed, \<open>GetPosts\<close> and \<open>GetBlogInfo\<close> return the decoded entity
  with the client attached (and the response, for \<open>GetPosts\<close>). In every case the state
  after the helper is the state after that one request.
\<close>

theorem query_helpers_return_errors_unchanged:
  assumes "normalizeBlogName name = Some h"
  shows
    "(GetWithParams clnt (''/blog/'' @ h @ ''/posts'') params s = ((resp, Some e), s') \<longrightarrow>
        GetPosts unmarshal clnt name params s = Some ((None, Some e), s'))
     \<and> (GetWithParams clnt (''/blog/'' @ h @ ''/posts'') params s = ((resp, None), s')
          \<and> unmarshal (body resp) \<lparr>PostsEnvelope.Response = Posts_zero\<rparr> = (Some e, penv) \<longrightarrow>
        GetPosts unmarshal clnt name params s = Some ((None, Some e), s'))
     \<and> (GetWithParams clnt (''/blog/'' @ h @ ''/posts'') params s = ((resp, None), s')
          \<and> unmarshal (body resp) \<lparr>PostsEnvelope.Response = Posts_zero\<rparr> = (None, penv) \<longrightarrow>
        GetPosts unmarshal clnt name params s =
          Some ((Some ((PostsEnvelope.Response penv)
                   \<lparr>Posts.response := resp, Posts.client := Some clnt\<rparr>), None), s'))
     \<and> (Get clnt (''/blog/'' @ h @ ''/info'') s = ((resp, Some e), s') \<longrightarrow>
        GetBlogInfo clnt name s = Some ((None, Some e), s'))
     \<and> (Get clnt (''/blog/'' @ h @ ''/info'') s = ((resp, None), s')
          \<and> json_Unmarshal decode_BlogEnvelope (body resp)
               \<lparr>BlogEnvelope.Response = \<lparr>Blog = Blog_zero\<rparr>\<rparr> = (Some e, benv) \<longrightarrow>
        GetBlogInfo clnt name s = Some ((None, Some e), s'))
     \<and> (Get clnt (''/blog/'' @ h @ ''/info'') s = ((resp, None), s')
          \<and> json_Unmarshal decode_BlogEnvelope (body resp)
               \<lparr>BlogEnvelope.Response = \<lparr>Blog = Blog_zero\<rparr>\<rparr> = (None, benv) \<longrightarrow>
        GetBlogInfo clnt name s =
          Some ((Some ((BlogResponse.Blog (BlogEnvelope.Response benv))
                   \<lparr>BlogRef := (BlogRef (BlogResponse.Blog (BlogEnvelope.Response benv)))
                        \<lparr>BlogRef.client := Some clnt\<rparr>\<rparr>), None), s'))
     \<and> (Get clnt (''/blog/'' @ h @ ''/avatar'') s = ((resp, Some e), s') \<longrightarrow>
        GetAvatar populate clnt name s = Some (([], Some e), s'))
     \<and> (Get clnt (''/blog/'' @ h @ ''/avatar'') s = ((resp, None), s')
          \<and> Headers_Get (Headers resp) ''Location'' = []
          \<and> populate resp = (Some e, r') \<longrightarrow>
        GetAvatar populate clnt name s = Some (([], Some e), s'))"
  using blogPath_posts [OF assms] blogPath_info [OF assms] blogPath_avatar [OF assms]
  by (simp add: GetPosts_def queryPosts_def GetBlogInfo_def GetAvatar_def)

theorem query_helpers_return_errors_unchanged_witness:
  \<open>GetPosts (\<lambda>data env. (None, env)) (fixed_client Response_zero (Some (TransportError ''timeout'')))
      ''staff'' [] 0 = Some ((None, Some (TransportError ''timeout'')), 1)
   \<and> GetPosts (\<lambda>data env. (Some SyntaxError, env)) (fixed_client Response_zero None)
      ''staff'' [] 0 = Some ((None, Some SyntaxError), 1)
   \<and> GetBlogInfo (fixed_client Response_zero (Some (TransportError ''timeout''))) ''staff'' 0 =
      Some ((None, Some (TransportError ''timeout'')), 1)
   \<and> GetBlogInfo (fixed_client \<lparr>body = ''{"response":'', Headers = [], Result = []\<rparr> None) ''staff'' 0 =
      Some ((None, Some SyntaxError), 1)
   \<and> GetBlogInfo
        (fixed_client \<lparr>body = ''{"response":{"blog":{"name":"staff","posts":7}}}'', Headers = [],
           Result = []\<rparr> None) ''staff'' 0 =
      Some ((Some (Blog_zero
          \<lparr>BlogRef := \<lparr>client = Some (fixed_client
                \<lparr>body = ''{"response":{"blog":{"name":"staff","posts":7}}}'', Headers = [],
                   Result = []\<rparr> None), Name = ''staff''\<rparr>,
            Blog.Posts := 7\<rparr>), None), 1)
   \<and> GetAvatar PopulateFromBody (fixed_client Response_zero (Some (TransportError ''timeout'')))
      ''staff'' 0 = Some (([], Some (TransportError ''timeout'')), 1)\<close>
proof -
  define r2 where \<open>r2 = \<lparr>body = ''{"response":'', Headers = [], Result = []\<rparr>\<close>
  define r3 where \<open>r3 = \<lparr>body = ''{"response":{"blog":{"name":"staff","posts":7}}}'',
    Headers = [], Result = []\<rparr>\<close>
  define te where "te = TransportError ''timeout''"
  have n: "normalizeBlogName ''staff'' = Some ''staff.tumblr.com''"
    by (simp add: normalizeBlogName_eq)
  have g: "Get (fixed_client r e) p 0 = ((r, e), 1)"
    "GetWithParams (fixed_client r e) p ps 0 = ((r, e), 1)" for r e p ps
    by (simp_all add: fixed_client_def)
  have d2: "json_Unmarshal decode_BlogEnvelope (body r2)
      \<lparr>BlogEnvelope.Response = \<lparr>Blog = (Blog_zero :: nat Blog)\<rparr>\<rparr> =
      (Some SyntaxError, \<lparr>BlogEnvelope.Response = \<lparr>Blog = Blog_zero\<rparr>\<rparr>)"
    by (simp add: json_Unmarshal_def r2_def json_parse_def next_token_def is_space_def
        scan_string.simps string_item.simps byte_def in_range_def utf8_size.simps Let_def)
  have d3p: "json_parse (body r3) =
      Some (JObject [(''response'', JObject [(''blog'',
        JObject [(''name'', JString ''staff''), (''posts'', JNumber ''7'')])])])"
    unfolding r3_def by code_simp
  have f: "foldName ''response'' = ''RESPONSE''" "foldName ''blog'' = ''BLOG''"
    "foldName ''name'' = ''NAME''" "foldName ''posts'' = ''POSTS''"
    by code_simp+
  have i: "decode_int (JNumber ''7'') 0 = (7, None)"
    by code_simp
  have d3: "json_Unmarshal decode_BlogEnvelope (body r3)
      \<lparr>BlogEnvelope.Response = \<lparr>Blog = (Blog_zero :: nat Blog)\<rparr>\<rparr> =
      (None, \<lparr>BlogEnvelope.Response = \<lparr>Blog = Blog_zero
          \<lparr>BlogRef := \<lparr>client = None, Name = ''staff''\<rparr>, Blog.Posts := 7\<rparr>\<rparr>\<rparr>)"
    by (simp add: json_Unmarshal_def d3p decode_BlogEnvelope_def decode_struct_def
        BlogEnvelope_member_def BlogResponse_member_def decode_Blog_def Blog_member_def
        store_field_def f i decode_string_def first_error_def Blog_zero_def
        BlogRef_Name_update_def Let_def)
  have c1: "GetPosts (\<lambda>data env. (None, env)) (fixed_client Response_zero (Some te)) ''staff'' [] 0 =
      Some ((None, Some te), 1)"
    using g query_helpers_return_errors_unchanged [OF n,
        where clnt = "fixed_client Response_zero (Some te)" and s = 0 and params = "[]"
          and resp = Response_zero and e = te and s' = 1
          and unmarshal = "\<lambda>data env. (None, env)"
          and penv = "\<lparr>PostsEnvelope.Response = Posts_zero\<rparr>"
          and benv = "\<lparr>BlogEnvelope.Response = \<lparr>Blog = Blog_zero\<rparr>\<rparr>"
          and populate = PopulateFromBody
          and r' = Response_zero]
    by simp
  have c2: "GetPosts (\<lambda>data env. (Some SyntaxError, env)) (fixed_client Response_zero None)
      ''staff'' [] 0 = Some ((None, Some SyntaxError), 1)"
    using g query_helpers_return_errors_unchanged [OF n,
        where clnt = "fixed_client Response_zero None" and s = 0 and params = "[]"
          and resp = Response_zero and e = SyntaxError and s' = 1
          and unmarshal = "\<lambda>data env. (Some SyntaxError, env)"
          and penv = "\<lparr>PostsEnvelope.Response = Posts_zero\<rparr>"
          and benv = "\<lparr>BlogEnvelope.Response = \<lparr>Blog = Blog_zero\<rparr>\<rparr>"
          and populate = PopulateFromBody
          and r' = Response_zero]
    by simp
  have c3: "GetBlogInfo (fixed_client Response_zero (Some te)) ''staff'' 0 =
      Some ((None, Some te), 1)"
    using g query_helpers_return_errors_unchanged [OF n,
        where clnt = "fixed_client Response_zero (Some te)" and s = 0
          and resp = Response_zero and e = te and s' = 1
          and params = "[]"
          and unmarshal = "\<lambda>data env. (None, env)"
          and penv = "\<lparr>PostsEnvelope.Response = Posts_zero\<rparr>"
          and benv = "\<lparr>BlogEnvelope.Response = \<lparr>Blog = Blog_zero\<rparr>\<rparr>"
          and populate = PopulateFromBody
          and r' = Response_zero]
    by simp
  have c4: "GetBlogInfo (fixed_client r2 None) ''staff'' 0 = Some ((None, Some SyntaxError), 1)"
    using g d2 query_helpers_return_errors_unchanged [OF n,
        where clnt = "fixed_client r2 None" and s = 0
          and resp = r2 and e = SyntaxError and s' = 1
          and benv = "\<lparr>BlogEnvelope.Response = \<lparr>Blog = Blog_zero\<rparr>\<rparr>"
          and params = "[]"
          and unmarshal = "\<lambda>data env. (None, env)"
          and penv = "\<lparr>PostsEnvelope.Response = Posts_zero\<rparr>"
          and populate = PopulateFromBody
          and r' = Response_zero]
    by simp
  have c5: "GetBlogInfo (fixed_client r3 None) ''staff'' 0 =
      Some ((Some (Blog_zero
          \<lparr>BlogRef := \<lparr>client = Some (fixed_client r3 None), Name = ''staff''\<rparr>,
            Blog.Posts := 7\<rparr>), None), 1)"
    using g d3 query_helpers_return_errors_unchanged [OF n,
        where clnt = "fixed_client r3 None" and s = 0 and resp = r3 and s' = 1
          and benv = "\<lparr>BlogEnvelope.Response = \<lparr>Blog = Blog_zero
              \<lparr>BlogRef := \<lparr>client = None, Name = ''staff''\<rparr>, Blog.Posts := 7\<rparr>\<rparr>\<rparr>"
          and params = "[]"
          and unmarshal = "\<lambda>data env. (None, env)"
          and penv = "\<lparr>PostsEnvelope.Response = Posts_zero\<rparr>"
          and populate = PopulateFromBody
          and r' = Response_zero
          and e = SyntaxError]
    by (simp add: Blog_zero_def)
  have c6: "GetAvatar PopulateFromBody (fixed_client Response_zero (Some te)) ''staff'' 0 =
      Some (([], Some te), 1)"
    using g query_helpers_return_errors_unchanged [OF n,
        where clnt = "fixed_client Response_zero (Some te)" and s = 0
          and resp = Response_zero and e = te and s' = 1 and populate = PopulateFromBody
          and params = "[]"
          and unmarshal = "\<lambda>data env. (None, env)"
          and penv = "\<lparr>PostsEnvelope.Response = Posts_zero\<rparr>"
          and benv = "\<lparr>BlogEnvelope.Response = \<lparr>Blog = Blog_zero\<rparr>\<rparr>"
          and r' = Response_zero]
    by simp
  from c1 c2 c3 c4 c5 c6 show ?thesis
    unfolding r2_def r3_def te_def by simp
qed

section \<open>Reflection (reflect) and the single-field accessor (post.go)\<close>

text \<open>
  What \<open>reflect\<close> sees of a type: its kind and, for a struct, its name and its fields, each
  with its name, whether it is embedded, and its type.
\<close>

datatype rtype =
    TString
  | TBool
  | TUint64
  | TInt
  | TInterface
  | TSlice rtype
  | TStruct string "(string \<times> bool \<times> rtype) list"

text \<open>What a \<open>reflect.Value\<close> holds.\<close>

datatype 's rvalue =
    VString string
  | VBool bool
  | VUint64 "64 word"
  | VInt "64 word"
  | VInterface "json option"
  | VClient "'s ClientInterface option"
  | VSlice "'s rvalue list option"
  | VStruct "'s rvalue list"

text \<open>
  The fields at depth \<open>d\<close> of a struct type, each with its index sequence: its own fields at
  depth 0, the fields of its embedded structs at depth 1, and so on.
\<close>

fun fields_at :: "nat \<Rightarrow> nat list \<Rightarrow> rtype \<Rightarrow> (string \<times> nat list) list" where
  "fields_at 0 idx (TStruct n fs) =
     map (\<lambda>(i, f). (fst f, idx @ [i])) (enumerate 0 fs)"
| "fields_at (Suc d) idx (TStruct n fs) =
     concat (map (\<lambda>(i, f). if fst (snd f) then fields_at d (idx @ [i]) (snd (snd f)) else [])
       (enumerate 0 fs))"
| "fields_at d idx t = []"

fun embed_depth :: "rtype \<Rightarrow> nat" where
  "embed_depth (TStruct n fs) =
     foldr max (map (\<lambda>f. if fst (snd f) then Suc (embed_depth (snd (snd f))) else 0) fs) 0"
| "embed_depth t = 0"

text \<open>
  \<open>Type.FieldByName(name)\<close>: the search is breadth first, one depth at a time. The field is
  the only one of that name at the least depth that has one; several fields of that name at
  that depth hide each other and everything below, and no field is found.
\<close>

fun lookup_levels :: "nat \<Rightarrow> nat \<Rightarrow> rtype \<Rightarrow> string \<Rightarrow> nat list option" where
  "lookup_levels 0 d t name = None"
| "lookup_levels (Suc k) d t name =
     (case filter (\<lambda>f. fst f = name) (fields_at d [] t) of
        [] \<Rightarrow> lookup_levels k (Suc d) t name
      | [f] \<Rightarrow> Some (snd f)
      | _ \<Rightarrow> None)"

definition FieldByName :: "rtype \<Rightarrow> string \<Rightarrow> nat list option" where
  "FieldByName t name = lookup_levels (Suc (embed_depth t)) 0 t name"

text \<open>\<open>Value.FieldByIndex(index)\<close>: the nested field; it panics on a value that has none.\<close>

fun FieldByIndex :: "'s rvalue \<Rightarrow> nat list \<Rightarrow> 's rvalue outcome" where
  "FieldByIndex v [] = Returns v"
| "FieldByIndex (VStruct fs) (i # idx) =
     (if i < length fs then FieldByIndex (fs ! i) idx
      else Panics (ReflectPanic ''reflect: Field index out of range''))"
| "FieldByIndex v (i # idx) =
     Panics (ReflectPanic ''reflect: call of reflect.Value.Field on a value that is no struct'')"

subsection \<open>The types of the source\<close>

definition MiniPost_type :: rtype where
  "MiniPost_type = TStruct ''MiniPost''
     [(''Id'', False, TUint64), (''Type'', False, TString), (''BlogName'', False, TString),
      (''ReblogKey'', False, TString)]"

definition PostRef_type :: rtype where
  "PostRef_type = TStruct ''PostRef''
     [(''MiniPost'', True, MiniPost_type), (''client'', False, TInterface)]"

definition BlogMiniInfo_type :: rtype where
  "BlogMiniInfo_type = TStruct ''BlogMiniInfo''
     [(''Name'', False, TString), (''Title'', False, TString), (''Description'', False, TString),
      (''Url'', False, TString), (''Updated'', False, TUint64), (''UUID'', False, TString)]"

definition Note_type :: rtype where
  "Note_type = TStruct ''Note''
     [(''Type'', False, TString), (''Timestamp'', False, TUint64), (''BlogName'', False, TString),
      (''BlogUUID'', False, TString), (''BlogUrl'', False, TString), (''Followed'', False, TBool),
      (''AvatarShape'', False, TString), (''ReplyText'', False, TString),
      (''PostID'', False, TString), (''ReblogParentBlogName'', False, TString)]"

definition NpfLink_type :: rtype where
  "NpfLink_type = TStruct ''NpfLink''
     [(''Url'', False, TString), (''DisplayUrl'', False, TString), (''Title'', False, TString),
      (''Description'', False, TString), (''Author'', False, TString),
      (''SiteName'', False, TString)]"

definition Formatting_type :: rtype where
  "Formatting_type = TStruct ''Formatting''
     [(''Type'', False, TString), (''Url'', False, TString), (''Blog'', False, BlogMiniInfo_type)]"

definition NpfMedia_type :: rtype where
  "NpfMedia_type = TStruct ''NpfMedia''
     [(''Type'', False, TString), (''Url'', False, TString), (''Width'', False, TInt),
      (''Height'', False, TInt)]"

definition NpfMediaContainer_type :: rtype where
  "NpfMediaContainer_type = TStruct ''NpfMediaContainer''
     [(''Media'', False, NpfMedia_type), (''MediaCollection'', False, TSlice NpfMedia_type),
      (''IsArray'', False, TBool)]"

definition NpfContent_type :: rtype where
  "NpfContent_type = TStruct ''NpfContent''
     [(''Type'', False, TString), (''Subtype'', False, TString), (''Text'', False, TString),
      (''Formatting'', False, TSlice Formatting_type), (''Media'', False, NpfMediaContainer_type),
      (''AltText'', False, TString), (''NpfLink'', True, NpfLink_type),
      (''Poster'', False, NpfMediaContainer_type)]"

definition TrailPost_type :: rtype where
  "TrailPost_type = TStruct ''TrailPost'' [(''Id'', False, TString)]"

definition BrokenBlog_type :: rtype where
  "BrokenBlog_type = TStruct ''BrokenBlog'' [(''Name'', False, TString)]"

definition NpfTrail_type :: rtype where
  "NpfTrail_type = TStruct ''NpfTrail''
     [(''Post'', False, TrailPost_type), (''Blog'', False, BlogMiniInfo_type),
      (''Content'', False, TSlice NpfContent_type), (''BrokenBlog'', False, BrokenBlog_type)]"

definition Reblog_type :: rtype where
  "Reblog_type = TStruct [] [(''Comment'', False, TString), (''TreeHTML'', False, TString)]"

definition Post_type :: rtype where
  "Post_type = TStruct ''Post''
     [(''PostRef'', True, PostRef_type), (''Body'', False, TString), (''CanLike'', False, TBool),
      (''CanReblog'', False, TBool), (''CanReply'', False, TBool),
      (''CanSendInMessage'', False, TBool), (''Caption'', False, TString),
      (''Date'', False, TString), (''DisplayAvatar'', False, TBool), (''Followed'', False, TBool),
      (''Format'', False, TString), (''Highlighted'', False, TSlice TInterface),
      (''Liked'', False, TBool), (''NoteCount'', False, TUint64),
      (''PermalinkUrl'', False, TString), (''PostUrl'', False, TString),
      (''Reblog'', False, Reblog_type), (''Notes'', False, TSlice Note_type),
      (''RecommendedColor'', False, TString), (''RecommendedSource'', False, TBool),
      (''ShortUrl'', False, TString), (''Slug'', False, TString), (''SourceTitle'', False, TString),
      (''SourceUrl'', False, TString), (''State'', False, TString), (''Summary'', False, TString),
      (''Tags'', False, TSlice TString), (''Timestamp'', False, TUint64),
      (''FeaturedTimestamp'', False, TUint64), (''TrackName'', False, TString),
      (''Content'', False, TSlice NpfContent_type), (''Trail'', False, TSlice NpfTrail_type)]"

subsection \<open>The values of the source\<close>

definition VSliceOf :: "('a \<Rightarrow> 's rvalue) \<Rightarrow> 'a list option \<Rightarrow> 's rvalue" where
  "VSliceOf f xs = VSlice (map_option (map f) xs)"

definition MiniPost_value :: "MiniPost \<Rightarrow> 's rvalue" where
  "MiniPost_value m =
     VStruct [VUint64 (MiniPost.Id m), VString (MiniPost.Type m), VString (MiniPost.BlogName m),
       VString (ReblogKey m)]"

definition PostRef_value :: "'s PostRef \<Rightarrow> 's rvalue" where
  "PostRef_value r = VStruct [MiniPost_value (MiniPost r), VClient (PostRef.client r)]"

definition BlogMiniInfo_value :: "BlogMiniInfo \<Rightarrow> 's rvalue" where
  "BlogMiniInfo_value b =
     VStruct [VString (BlogMiniInfo.Name b), VString (BlogMiniInfo.Title b),
       VString (BlogMiniInfo.Description b), VString (BlogMiniInfo.Url b),
       VUint64 (BlogMiniInfo.Updated b), VString (BlogMiniInfo.UUID b)]"

definition Note_value :: "Note \<Rightarrow> 's rvalue" where
  "Note_value n =
     VStruct [VString (Note.Type n), VUint64 (Note.Timestamp n), VString (Note.BlogName n),
       VString (BlogUUID n), VString (BlogUrl n), VBool (Note.Followed n),
       VString (AvatarShape n), VString (ReplyText n), VString (PostID n),
       VString (ReblogParentBlogName n)]"

definition NpfLink_value :: "NpfLink \<Rightarrow> 's rvalue" where
  "NpfLink_value l =
     VStruct [VString (NpfLink.Url l), VString (DisplayUrl l), VString (NpfLink.Title l),
       VString (NpfLink.Description l), VString (Author l), VString (SiteName l)]"

definition Formatting_value :: "Formatting \<Rightarrow> 's rvalue" where
  "Formatting_value f =
     VStruct [VString (Formatting.Type f), VString (Formatting.Url f),
       BlogMiniInfo_value (Formatting.Blog f)]"

definition NpfMedia_value :: "NpfMedia \<Rightarrow> 's rvalue" where
  "NpfMedia_value m =
     VStruct [VString (NpfMedia.Type m), VString (NpfMedia.Url m), VInt (Width m), VInt (Height m)]"

definition NpfMediaContainer_value :: "NpfMediaContainer \<Rightarrow> 's rvalue" where
  "NpfMediaContainer_value c =
     VStruct [NpfMedia_value (NpfMediaContainer.Media c),
       VSliceOf NpfMedia_value (MediaCollection c), VBool (IsArray c)]"

definition NpfContent_value :: "NpfContent \<Rightarrow> 's rvalue" where
  "NpfContent_value c =
     VStruct [VString (NpfContent.Type c), VString (Subtype c), VString (Text c),
       VSliceOf Formatting_value (NpfContent.Formatting c),
       NpfMediaContainer_value (NpfContent.Media c), VString (AltText c),
       NpfLink_value (NpfLink c), NpfMediaContainer_value (Poster c)]"

definition TrailPost_value :: "TrailPost \<Rightarrow> 's rvalue" where
  "TrailPost_value t = VStruct [VString (TrailPost.Id t)]"

definition BrokenBlog_value :: "BrokenBlog \<Rightarrow> 's rvalue" where
  "BrokenBlog_value b = VStruct [VString (BrokenBlog.Name b)]"

definition NpfTrail_value :: "NpfTrail \<Rightarrow> 's rvalue" where
  "NpfTrail_value t =
     VStruct [TrailPost_value (NpfTrail.Post t), BlogMiniInfo_value (NpfTrail.Blog t),
       VSliceOf NpfContent_value (NpfTrail.Content t), BrokenBlog_value (BrokenBlog t)]"

definition Reblog_value :: "Reblog \<Rightarrow> 's rvalue" where
  "Reblog_value r = VStruct [VString (Comment r), VString (TreeHTML r)]"

definition Post_value :: "'s Post \<Rightarrow> 's rvalue" where
  "Post_value p =
     VStruct [PostRef_value (PostRef p), VString (Body p), VBool (CanLike p), VBool (CanReblog p),
       VBool (CanReply p), VBool (CanSendInMessage p), VString (Caption p), VString (Date p),
       VBool (DisplayAvatar p), VBool (Post.Followed p), VString (Format p),
       VSliceOf (\<lambda>j. VInterface j) (map_option (map Some) (Highlighted p)), VBool (Liked p),
       VUint64 (NoteCount p), VString (PermalinkUrl p), VString (PostUrl p),
       Reblog_value (Reblog p), VSliceOf Note_value (Notes p), VString (RecommendedColor p),
       VBool (RecommendedSource p), VString (ShortUrl p), VString (Slug p),
       VString (SourceTitle p), VString (SourceUrl p), VString (State p), VString (Summary p),
       VSliceOf VString (Tags p), VUint64 (Post.Timestamp p), VUint64 (FeaturedTimestamp p),
       VString (TrackName p), VSliceOf NpfContent_value (Post.Content p),
       VSliceOf NpfTrail_value (Trail p)]"

subsection \<open>GetProperty\<close>

text \<open>
  \<open>Post.GetProperty\<close>, for a receiver that is not \<open>nil\<close>: the result is the
  \<open>reflect.Value\<close> of the field. The result is optional only because the model of
  \<open>fmt.Sprintf\<close> is partial.
\<close>

definition GetProperty :: "'s Post \<Rightarrow> string \<Rightarrow> ('s rvalue option \<times> error option) outcome option" where
  "GetProperty p key =
     (case FieldByName Post_type key of
        Some index \<Rightarrow>
          (case FieldByIndex (Post_value p) index of
             Panics x \<Rightarrow> Some (Panics x)
           | Returns v \<Rightarrow> Some (Returns (Some v, None)))
      | None \<Rightarrow>
          map_option (\<lambda>msg. Returns (None, Some (errorString msg)))
            (fmt_Sprintf ''Property %s does not exist'' key))"

subsection \<open>Properties of GetProperty\<close>

text \<open>
  The fields of a \<open>Post\<close> by name, with their current values: its own fields, and the fields
  that are promoted from the embedded \<open>PostRef\<close> and from the \<open>MiniPost\<close> embedded in it.
\<close>

definition Post_fields :: "'s Post \<Rightarrow> (string \<times> 's rvalue) list" where
  "Post_fields p =
     [(''PostRef'', PostRef_value (PostRef p)), (''Body'', VString (Body p)),
      (''CanLike'', VBool (CanLike p)), (''CanReblog'', VBool (CanReblog p)),
      (''CanReply'', VBool (CanReply p)), (''CanSendInMessage'', VBool (CanSendInMessage p)),
      (''Caption'', VString (Caption p)), (''Date'', VString (Date p)),
      (''DisplayAvatar'', VBool (DisplayAvatar p)), (''Followed'', VBool (Post.Followed p)),
      (''Format'', VString (Format p)),
      (''Highlighted'', VSliceOf (\<lambda>j. VInterface j) (map_option (map Some) (Highlighted p))),
      (''Liked'', VBool (Liked p)), (''NoteCount'', VUint64 (NoteCount p)),
      (''PermalinkUrl'', VString (PermalinkUrl p)), (''PostUrl'', VString (PostUrl p)),
      (''Reblog'', Reblog_value (Reblog p)), (''Notes'', VSliceOf Note_value (Notes p)),
      (''RecommendedColor'', VString (RecommendedColor p)),
      (''RecommendedSource'', VBool (RecommendedSource p)), (''ShortUrl'', VString (ShortUrl p)),
      (''Slug'', VString (Slug p)), (''SourceTitle'', VString (SourceTitle p)),
      (''SourceUrl'', VString (SourceUrl p)), (''State'', VString (State p)),
      (''Summary'', VString (Summary p)), (''Tags'', VSliceOf VString (Tags p)),
      (''Timestamp'', VUint64 (Post.Timestamp p)),
      (''FeaturedTimestamp'', VUint64 (FeaturedTimestamp p)),
      (''TrackName'', VString (TrackName p)),
      (''Content'', VSliceOf NpfContent_value (Post.Content p)),
      (''Trail'', VSliceOf NpfTrail_value (Trail p)),
      (''MiniPost'', MiniPost_value (MiniPost (PostRef p))),
      (''client'', VClient (PostRef.client (PostRef p))),
      (''Id'', VUint64 (MiniPost.Id (MiniPost (PostRef p)))),
      (''Type'', VString (MiniPost.Type (MiniPost (PostRef p)))),
      (''BlogName'', VString (MiniPost.BlogName (MiniPost (PostRef p)))),
      (''ReblogKey'', VString (ReblogKey (MiniPost (PostRef p))))]"

definition Post_field_names :: "string list" where
  "Post_field_names =
     [''PostRef'', ''Body'', ''CanLike'', ''CanReblog'', ''CanReply'', ''CanSendInMessage'',
      ''Caption'', ''Date'', ''DisplayAvatar'', ''Followed'', ''Format'', ''Highlighted'',
      ''Liked'', ''NoteCount'', ''PermalinkUrl'', ''PostUrl'', ''Reblog'', ''Notes'',
      ''RecommendedColor'', ''RecommendedSource'', ''ShortUrl'', ''Slug'', ''SourceTitle'',
      ''SourceUrl'', ''State'', ''Summary'', ''Tags'', ''Timestamp'', ''FeaturedTimestamp'',
      ''TrackName'', ''Content'', ''Trail'', ''MiniPost'', ''client'', ''Id'', ''Type'',
      ''BlogName'', ''ReblogKey'']"

text \<open>The index sequences of the fields of \<open>Post\<close>, depth by depth.\<close>

definition Post_level0 :: "(string \<times> nat list) list" where
  "Post_level0 =
     [(''PostRef'', [0]), (''Body'', [1]), (''CanLike'', [2]), (''CanReblog'', [3]),
      (''CanReply'', [4]), (''CanSendInMessage'', [5]), (''Caption'', [6]), (''Date'', [7]),
      (''DisplayAvatar'', [8]), (''Followed'', [9]), (''Format'', [10]), (''Highlighted'', [11]),
      (''Liked'', [12]), (''NoteCount'', [13]), (''PermalinkUrl'', [14]), (''PostUrl'', [15]),
      (''Reblog'', [16]), (''Notes'', [17]), (''RecommendedColor'', [18]),
      (''RecommendedSource'', [19]), (''ShortUrl'', [20]), (''Slug'', [21]),
      (''SourceTitle'', [22]), (''SourceUrl'', [23]), (''State'', [24]), (''Summary'', [25]),
      (''Tags'', [26]), (''Timestamp'', [27]), (''FeaturedTimestamp'', [28]),
      (''TrackName'', [29]), (''Content'', [30]), (''Trail'', [31])]"

definition Post_level1 :: "(string \<times> nat list) list" where
  "Post_level1 = [(''MiniPost'', [0, 0]), (''client'', [0, 1])]"

definition Post_level2 :: "(string \<times> nat list) list" where
  "Post_level2 =
     [(''Id'', [0, 0, 0]), (''Type'', [0, 0, 1]), (''BlogName'', [0, 0, 2]),
      (''ReblogKey'', [0, 0, 3])]"

lemma Post_levels:
  "fields_at 0 [] Post_type = Post_level0"
  "fields_at (Suc 0) [] Post_type = Post_level1"
  "fields_at (Suc (Suc 0)) [] Post_type = Post_level2"
  "embed_depth Post_type = Suc (Suc 0)"
  by code_simp+

lemma Post_levels_distinct:
  "distinct (map fst (Post_level0 @ Post_level1 @ Post_level2))"
  by code_simp

lemma filter_by_name:
  "distinct (map fst xs) \<Longrightarrow>
     filter (\<lambda>f. fst f = k) xs = (case map_of xs k of None \<Rightarrow> [] | Some v \<Rightarrow> [(k, v)])"
proof (induction xs)
  case Nil
  show ?case by simp
next
  case (Cons x xs)
  obtain a b where x: "x = (a, b)" by (cases x)
  show ?case
  proof (cases "a = k")
    case True
    with Cons.prems x have "k \<notin> fst ` set xs" by auto
    then have "map_of xs k = None" by (simp add: map_of_eq_None_iff)
    with Cons True x show ?thesis by simp
  next
    case False
    with Cons x show ?thesis by simp
  qed
qed

lemma FieldByName_Post:
  "FieldByName Post_type key = map_of (Post_level0 @ Post_level1 @ Post_level2) key"
proof -
  from Post_levels_distinct have d: "distinct (map fst Post_level0)"
    "distinct (map fst Post_level1)" "distinct (map fst Post_level2)"
    by auto
  show ?thesis
    by (simp add: FieldByName_def Post_levels filter_by_name d map_add_def
        split: option.splits)
qed

lemma FieldByIndex_Post:
  "map (\<lambda>f. (fst f, FieldByIndex (Post_value p) (snd f)))
       (Post_level0 @ Post_level1 @ Post_level2) =
   map (\<lambda>f. (fst f, Returns (snd f))) (Post_fields p)"
  by (simp add: Post_level0_def Post_level1_def Post_level2_def Post_fields_def Post_value_def
      PostRef_value_def MiniPost_value_def)

lemma map_of_map_snd:
  "map_of (map (\<lambda>f. (fst f, g (snd f))) xs) k = map_option g (map_of xs k)"
  by (induction xs) auto

lemma fmt_Sprintf_Property:
  "fmt_Sprintf ''Property %s does not exist'' key = Some (''Property '' @ key @ '' does not exist'')"
  using fmt_Sprintf_one_placeholder [of "''Property ''" "'' does not exist''" key]
  by simp

text \<open>
  C9. For every field name and every \<open>Post\<close>, \<open>GetProperty\<close> returns the current value of the
  field of that name and no error when \<open>Post\<close> has such a field (one of the 38 names of
  \<open>Post_field_names\<close>), and no value and the error \<open>Property ... does not exist\<close> exactly when
  it has none. It does not panic.
\<close>

theorem GetProperty_field_or_error:
  "GetProperty p key =
     Some (Returns
       (case map_of (Post_fields p) key of
          Some v \<Rightarrow> (Some v, None)
        | None \<Rightarrow> (None, Some (errorString (''Property '' @ key @ '' does not exist'')))))
   \<and> (map_of (Post_fields p) key = None) = (key \<notin> set Post_field_names)"
proof -
  let ?T = "Post_level0 @ Post_level1 @ Post_level2"
  have rel: "map_option (FieldByIndex (Post_value p)) (map_of ?T key) =
      map_option Returns (map_of (Post_fields p) key)"
    using arg_cong [OF FieldByIndex_Post [of p], of "\<lambda>xs. map_of xs key"]
    by (simp only: map_of_map_snd)
  have names: "(map_of (Post_fields p) key = None) = (key \<notin> set Post_field_names)"
    by (simp add: map_of_eq_None_iff Post_fields_def Post_field_names_def)
  have "GetProperty p key =
     Some (Returns
       (case map_of (Post_fields p) key of
          Some v \<Rightarrow> (Some v, None)
        | None \<Rightarrow> (None, Some (errorString (''Property '' @ key @ '' does not exist'')))))"
  proof (cases "map_of ?T key")
    case None
    with rel have "map_of (Post_fields p) key = None" by (simp del: map_of_append)
    with None show ?thesis
      by (simp add: GetProperty_def FieldByName_Post fmt_Sprintf_Property del: map_of_append)
  next
    case (Some idx)
    with rel obtain v where "map_of (Post_fields p) key = Some v"
      and "FieldByIndex (Post_value p) idx = Returns v"
      by (cases "map_of (Post_fields p) key") (auto simp del: map_of_append)
    with Some show ?thesis
      by (simp add: GetProperty_def FieldByName_Post del: map_of_append)
  qed
  with names show ?thesis by simp
qed

section \<open>The JSON of a blog (tumblelog.go)\<close>

text \<open>\<open>strconv.FormatInt(i, 10)\<close>: the decimal digits of an integer, with its sign.\<close>

fun digits_of :: "nat \<Rightarrow> string" where
  "digits_of n =
     (if n < 10 then [char_of (0x30 + n)]
      else digits_of (n div 10) @ [char_of (0x30 + n mod 10)])"

declare digits_of.simps [simp del]

definition strconv_FormatInt :: "int \<Rightarrow> string" where
  "strconv_FormatInt i = (if i < 0 then CHR ''-'' # digits_of (nat (- i)) else digits_of (nat i))"

text \<open>
  Modelled from the spec: \<open>jsonStringify\<close>, whose source is not under src/, re-encodes the
  entity back to JSON. The spec leaves the formatting of the text open, so the model gives
  the JSON value of that text: an object with one member for every exported field of the
  blog, named by the tag of the field, in the order of the fields.
\<close>

definition jsonStringify_Blog :: "'s Blog \<Rightarrow> json" where
  "jsonStringify_Blog b =
     JObject
       [(''name'', JString (BlogRef.Name (BlogRef b))),
        (''url'', JString (Blog.Url b)),
        (''title'', JString (Blog.Title b)),
        (''posts'', JNumber (strconv_FormatInt (sint (Blog.Posts b)))),
        (''ask'', JBool (Ask b)),
        (''ask_anon'', JBool (AskAnon b)),
        (''ask_page_title'', JString (AskAnonPageTitle b)),
        (''can_send_fan_mail'', JBool (CanSendFanMail b)),
        (''can_submit'', JBool (CanSubmit b)),
        (''can_subscribe'', JBool (CanSubscribe b)),
        (''description'', JString (Blog.Description b)),
        (''followed'', JBool (Blog.Followed b)),
        (''is_blocked_from_primary'', JBool (IsBlockedFromPrimary b)),
        (''is_nsfw'', JBool (IsNSFW b)),
        (''share_likes'', JBool (ShareLikes b)),
        (''submission_page_title'', JString (SubmissionPageTitle b)),
        (''subscribed'', JBool (Subscribed b)),
        (''total_posts'', JNumber (strconv_FormatInt (sint (Blog.TotalPosts b)))),
        (''updated'', JNumber (strconv_FormatInt (sint (Blog.Updated b)))),
        (''uuid'', JString (Blog.UUID b))]"

text \<open>\<open>Blog.String\<close>, as in the source.\<close>

definition Blog_String :: "'s Blog \<Rightarrow> json" where
  "Blog_String b = jsonStringify_Blog b"

subsection \<open>Decimal digits\<close>

lemma byte_digit: "d < 10 \<Longrightarrow> byte (char_of (0x30 + d)) = 0x30 + d"
  by (simp add: byte_def)

lemma is_digit_char_of: "d < 10 \<Longrightarrow> is_digit (char_of (0x30 + (d :: nat)))"
  by (simp add: is_digit_def in_range_def byte_digit)

lemma digits_of_not_Nil: "digits_of n \<noteq> []"
  by (subst digits_of.simps) simp

lemma digits_of_all_digits: "list_all is_digit (digits_of n)"
proof (induction n rule: digits_of.induct)
  case (1 n)
  show ?case
  proof (cases "n < 10")
    case True
    then show ?thesis by (subst digits_of.simps) (simp add: is_digit_char_of)
  next
    case False
    with 1 show ?thesis by (subst digits_of.simps) (simp add: is_digit_char_of)
  qed
qed

lemma digits_value_snoc: "digits_value (ds @ [c]) = digits_value ds * 10 + (byte c - 0x30)"
  by (simp add: digits_value_def)

lemma digits_value_digits_of: "digits_value (digits_of n) = n"
proof (induction n rule: digits_of.induct)
  case (1 n)
  show ?case
  proof (cases "n < 10")
    case True
    then show ?thesis
      by (subst digits_of.simps) (simp add: digits_value_def byte_digit)
  next
    case False
    with 1 have "digits_value (digits_of (n div 10)) = n div 10" by simp
    with False show ?thesis
      by (subst digits_of.simps) (simp add: digits_value_snoc byte_digit)
  qed
qed

lemma digits_of_no_sign: "hd (digits_of n) \<noteq> CHR ''-'' \<and> hd (digits_of n) \<noteq> CHR ''+''"
proof -
  from digits_of_not_Nil [of n] obtain c cs where d: "digits_of n = c # cs"
    by (cases "digits_of n") auto
  with digits_of_all_digits [of n] have "is_digit c" by simp
  then have "c \<noteq> CHR ''-'' \<and> c \<noteq> CHR ''+''"
    by (auto simp: is_digit_def in_range_def byte_def)
  with d show ?thesis by simp
qed

lemma strconv_ParseInt_FormatInt:
  assumes "- (2 ^ 63) \<le> i" and "i < 2 ^ 63"
  shows "strconv_ParseInt (strconv_FormatInt i) = Some i"
proof (cases "i < 0")
  case True
  with assms show ?thesis
    by (simp add: strconv_ParseInt_def strconv_FormatInt_def Let_def digits_of_not_Nil
        digits_of_all_digits digits_value_digits_of)
next
  case False
  from digits_of_not_Nil [of "nat i"] obtain c cs where d: "digits_of (nat i) = c # cs"
    by (cases "digits_of (nat i)") auto
  from digits_of_no_sign [of "nat i"] d have c: "c \<noteq> CHR ''-''" "c \<noteq> CHR ''+''" by simp_all
  from digits_of_all_digits [of "nat i"] d have a: "list_all is_digit (c # cs)" by simp
  from digits_value_digits_of [of "nat i"] d have v: "digits_value (c # cs) = nat i" by simp
  from False assms c a v show ?thesis
    by (simp add: strconv_ParseInt_def strconv_FormatInt_def Let_def d)
qed

lemma decode_int_FormatInt:
  "decode_int (JNumber (strconv_FormatInt (sint (w :: 64 word)))) old = (w, None)"
proof -
  have "- (2 ^ 63) \<le> sint w" "sint w < 2 ^ 63"
    using sint_ge [of w] sint_lt [of w] by simp_all
  then show ?thesis
    by (simp add: decode_int_def strconv_ParseInt_FormatInt)
qed

subsection \<open>Decoding the JSON of a blog\<close>

lemma Blog_tags:
  "foldName ''name'' = ''NAME''" "foldName ''url'' = ''URL''" "foldName ''title'' = ''TITLE''"
  "foldName ''posts'' = ''POSTS''" "foldName ''ask'' = ''ASK''"
  "foldName ''ask_anon'' = ''ASK_ANON''" "foldName ''ask_page_title'' = ''ASK_PAGE_TITLE''"
  "foldName ''can_send_fan_mail'' = ''CAN_SEND_FAN_MAIL''"
  "foldName ''can_submit'' = ''CAN_SUBMIT''" "foldName ''can_subscribe'' = ''CAN_SUBSCRIBE''"
  "foldName ''description'' = ''DESCRIPTION''" "foldName ''followed'' = ''FOLLOWED''"
  "foldName ''is_blocked_from_primary'' = ''IS_BLOCKED_FROM_PRIMARY''"
  "foldName ''is_nsfw'' = ''IS_NSFW''" "foldName ''share_likes'' = ''SHARE_LIKES''"
  "foldName ''submission_page_title'' = ''SUBMISSION_PAGE_TITLE''"
  "foldName ''subscribed'' = ''SUBSCRIBED''" "foldName ''total_posts'' = ''TOTAL_POSTS''"
  "foldName ''updated'' = ''UPDATED''" "foldName ''uuid'' = ''UUID''"
  by code_simp+

lemma decode_Blog_String:
  "decode_Blog (Blog_String b) Blog_zero =
     (b\<lparr>BlogRef := (BlogRef b)\<lparr>BlogRef.client := None\<rparr>\<rparr>, None)"
proof -
  obtain r where r: "BlogRef b = r" by simp
  show ?thesis
    by (cases b, cases r)
      (simp add: r Blog_String_def jsonStringify_Blog_def decode_Blog_def decode_struct_def
        Blog_member_def Blog_tags Let_def store_field_def decode_string_def decode_bool_def
        decode_int_FormatInt first_error_def Blog_zero_def BlogRef_Name_update_def)
qed

text \<open>A blog-info response, and the blog that \<open>GetBlogInfo\<close> decodes from it.\<close>

definition staff_response :: Response where
  \<open>staff_response =
     \<lparr>body = ''{"response":{"blog":{"name":"staff","posts":7,"ask":true}}}'', Headers = [],
      Result = []\<rparr>\<close>

lemma GetBlogInfo_staff:
  "GetBlogInfo (fixed_client staff_response None) ''staff'' 0 =
     Some ((Some (Blog_zero
        \<lparr>BlogRef := \<lparr>client = Some (fixed_client staff_response None), Name = ''staff''\<rparr>,
          Blog.Posts := 7, Ask := True\<rparr>), None), 1)"
proof -
  have p: "json_parse (body staff_response) =
      Some (JObject [(''response'', JObject [(''blog'',
        JObject [(''name'', JString ''staff''), (''posts'', JNumber ''7''),
          (''ask'', JBool True)])])])"
    unfolding staff_response_def by code_simp
  have f: "foldName ''response'' = ''RESPONSE''" "foldName ''blog'' = ''BLOG''"
    by code_simp+
  have i: "decode_int (JNumber ''7'') 0 = (7, None)"
    by code_simp
  have d: "json_Unmarshal decode_BlogEnvelope (body staff_response)
      \<lparr>BlogEnvelope.Response = \<lparr>Blog = (Blog_zero :: nat Blog)\<rparr>\<rparr> =
      (None, \<lparr>BlogEnvelope.Response = \<lparr>Blog = Blog_zero
          \<lparr>BlogRef := \<lparr>client = None, Name = ''staff''\<rparr>, Blog.Posts := 7, Ask := True\<rparr>\<rparr>\<rparr>)"
    by (simp add: json_Unmarshal_def p decode_BlogEnvelope_def decode_struct_def
        BlogEnvelope_member_def BlogResponse_member_def decode_Blog_def Blog_member_def
        store_field_def f Blog_tags i decode_string_def decode_bool_def first_error_def
        Blog_zero_def BlogRef_Name_update_def Let_def)
  have n: "blogPath ''/blog/%s/info'' ''staff'' = Some ''/blog/staff.tumblr.com/info''"
    using blogPath_info [OF normalizeBlogName_eq, of "''staff''"] by simp
  show ?thesis
    by (simp add: GetBlogInfo_def n fixed_client_def d)
qed

text \<open>
  C8. For every blog that \<open>GetBlogInfo\<close> decodes from a blog-info envelope, decoding the JSON
  of \<open>Blog.String\<close> gives back the blog: every field has the value it had, but for the client
  reference, which is not exported and is not part of the JSON.
\<close>

theorem Blog_String_round_trip:
  assumes "GetBlogInfo clnt name s = Some ((Some b, None), s')"
  shows "decode_Blog (Blog_String b) Blog_zero =
           (b\<lparr>BlogRef := (BlogRef b)\<lparr>BlogRef.client := None\<rparr>\<rparr>, None)"
  by (rule decode_Blog_String)

theorem Blog_String_round_trip_witness:
  "decode_Blog
     (Blog_String (Blog_zero
        \<lparr>BlogRef := \<lparr>client = Some (fixed_client staff_response None), Name = ''staff''\<rparr>,
          Blog.Posts := 7, Ask := True\<rparr>))
     Blog_zero =
   ((Blog_zero :: nat Blog)
      \<lparr>BlogRef := \<lparr>client = None, Name = ''staff''\<rparr>, Blog.Posts := 7, Ask := True\<rparr>,
    None)"
  using Blog_String_round_trip [OF GetBlogInfo_staff] by (simp add: Blog_zero_def)

end
